theory Spec2Isabelle
  imports Complex_Main "HOL-Library.Sublist" "HOL-Library.Word"
begin

section \<open>The SQLite store of \<^verbatim>\<open>helpers_func.py\<close>\<close>

text \<open>
  \<^verbatim>\<open>_init_db\<close> creates two tables. A row of \<^verbatim>\<open>chat_sessions\<close> has the columns
  \<^verbatim>\<open>id, created_at, document_path, document_unique_name, document_display_name\<close>
  (the three document columns may be NULL); a row of \<^verbatim>\<open>chat_messages\<close> has
  \<^verbatim>\<open>id, chat_id, timestamp, question, answer, response_time, document\<close>.
  Both ids are \<^verbatim>\<open>INTEGER PRIMARY KEY AUTOINCREMENT\<close>: SQLite keeps, per table, the
  largest rowid ever handed out (table \<^verbatim>\<open>sqlite_sequence\<close>) and gives a new row one
  more than the maximum of that counter and the rowids present. The counter is
  ordinary table data, so a rollback restores it with the rows. Rowids handed out this
  way are positive, hence \<open>nat\<close>. The foreign key of \<^verbatim>\<open>chat_messages.chat_id\<close> is
  declared but never enforced: the code never issues \<^verbatim>\<open>PRAGMA foreign_keys = ON\<close>,
  and SQLite leaves enforcement off by default.
\<close>

record session_row =
  s_id :: nat
  s_created_at :: string
  s_document_path :: "string option"
  s_document_unique_name :: "string option"
  s_document_display_name :: "string option"

record message_row =
  m_id :: nat
  m_chat_id :: nat
  m_timestamp :: string
  m_question :: string
  m_answer :: string
  m_response_time :: real
  m_document :: "string option"

record database =
  chat_sessions :: "session_row list"
  chat_messages :: "message_row list"
  seq_chat_sessions :: nat
  seq_chat_messages :: nat

definition next_rowid :: "nat \<Rightarrow> nat list \<Rightarrow> nat" where
  "next_rowid seq ids = Suc (fold max ids seq)"

text \<open>\<^verbatim>\<open>INSERT INTO chat_sessions(created_at) VALUES (?)\<close>; the result carries
  \<^verbatim>\<open>cur.lastrowid\<close>.\<close>

definition insert_session :: "string \<Rightarrow> database \<Rightarrow> nat \<times> database" where
  "insert_session created d =
     (let new_id = next_rowid (seq_chat_sessions d) (map s_id (chat_sessions d))
      in (new_id,
          d\<lparr>chat_sessions := chat_sessions d @
                [\<lparr>s_id = new_id, s_created_at = created, s_document_path = None,
                  s_document_unique_name = None, s_document_display_name = None\<rparr>],
            seq_chat_sessions := new_id\<rparr>))"

text \<open>The dictionaries \<^verbatim>\<open>chat_entry\<close> (built by \<^verbatim>\<open>add_to_chat_history\<close>) and the ones
  \<^verbatim>\<open>get_chat_messages\<close> returns have the same five keys.\<close>

record chat_entry =
  timestamp :: string
  question :: string
  answer :: string
  response_time :: real
  document :: "string option"

text \<open>\<^verbatim>\<open>INSERT INTO chat_messages(chat_id, timestamp, question, answer, response_time,
  document) VALUES (?, ?, ?, ?, ?, ?)\<close>.\<close>

definition insert_message :: "nat \<Rightarrow> chat_entry \<Rightarrow> database \<Rightarrow> database" where
  "insert_message cid e d =
     (let new_id = next_rowid (seq_chat_messages d) (map m_id (chat_messages d))
      in d\<lparr>chat_messages := chat_messages d @
                [\<lparr>m_id = new_id, m_chat_id = cid, m_timestamp = timestamp e,
                  m_question = question e, m_answer = answer e,
                  m_response_time = response_time e, m_document = document e\<rparr>],
            seq_chat_messages := new_id\<rparr>)"

text \<open>The dictionary with the keys \<^verbatim>\<open>path\<close>, \<^verbatim>\<open>unique_name\<close>, \<^verbatim>\<open>name\<close>: it is what
  \<^verbatim>\<open>get_chat_metadata\<close> returns and what \<^verbatim>\<open>st.session_state.current_document\<close>
  holds.\<close>

record doc_meta =
  path :: "string option"
  unique_name :: "string option"
  name :: "string option"

text \<open>\<^verbatim>\<open>UPDATE chat_sessions SET document_path = ?, document_unique_name = ?,
  document_display_name = ? WHERE id = ?\<close>.\<close>

definition update_session_doc :: "doc_meta \<Rightarrow> nat \<Rightarrow> database \<Rightarrow> database" where
  "update_session_doc doc cid d =
     d\<lparr>chat_sessions :=
         map (\<lambda>s. if s_id s = cid
                   then s\<lparr>s_document_path := path doc,
                          s_document_unique_name := unique_name doc,
                          s_document_display_name := name doc\<rparr>
                   else s)
             (chat_sessions d)\<rparr>"

text \<open>\<^verbatim>\<open>DELETE FROM chat_messages WHERE chat_id = ?\<close> and
  \<^verbatim>\<open>DELETE FROM chat_sessions WHERE id = ?\<close>.\<close>

definition delete_messages_of :: "nat \<Rightarrow> database \<Rightarrow> database" where
  "delete_messages_of cid d =
     d\<lparr>chat_messages := filter (\<lambda>m. m_chat_id m \<noteq> cid) (chat_messages d)\<rparr>"

definition delete_session_row :: "nat \<Rightarrow> database \<Rightarrow> database" where
  "delete_session_row cid d =
     d\<lparr>chat_sessions := filter (\<lambda>s. s_id s \<noteq> cid) (chat_sessions d)\<rparr>"

subsection \<open>Failures of the store\<close>

text \<open>
  Every function of \<^verbatim>\<open>helpers_func.py\<close> that touches the database wraps its work in
  \<^verbatim>\<open>try: with sqlite3.connect(DB_PATH) as conn: ... except Exception\<close>. Any of the
  calls into \<^verbatim>\<open>sqlite3\<close> may raise. The model numbers these calls in source order
  inside each function (\<open>0\<close> is the first \<^verbatim>\<open>connect\<close>) and takes the set of the calls
  that raise as an argument; \<open>{}\<close> is a run without failure. The connection's context
  manager rolls the open transaction back when an exception leaves the
  \<^verbatim>\<open>with\<close> block, so the stored database is then the one from before the block;
  assignments to \<^verbatim>\<open>st.session_state\<close> made inside the block stay.
  \<^verbatim>\<open>logging.error\<close> writes to the process log of Python, which is not part of the
  state here.
\<close>

type_synonym faults = "nat set"

text \<open>\<^verbatim>\<open>get_chat_messages\<close>: \<open>0\<close> connect, \<open>1\<close> the \<^verbatim>\<open>SELECT ... WHERE chat_id = ?
  ORDER BY id ASC\<close>.\<close>

definition entry_of_row :: "message_row \<Rightarrow> chat_entry" where
  "entry_of_row r =
     \<lparr>timestamp = m_timestamp r, question = m_question r, answer = m_answer r,
      response_time = m_response_time r, document = m_document r\<rparr>"

definition get_chat_messages :: "faults \<Rightarrow> nat \<Rightarrow> database \<Rightarrow> chat_entry list" where
  "get_chat_messages fs cid d =
     (if 0 \<in> fs \<or> 1 \<in> fs then []
      else map entry_of_row
             (sort_key m_id (filter (\<lambda>m. m_chat_id m = cid) (chat_messages d))))"

text \<open>\<^verbatim>\<open>get_chat_sessions\<close>: \<open>0\<close> connect, \<open>1\<close> the \<^verbatim>\<open>SELECT\<close> with the correlated
  subquery \<^verbatim>\<open>SELECT m.answer ... WHERE m.chat_id = s.id ORDER BY m.id DESC LIMIT 1\<close>,
  ordered by \<^verbatim>\<open>s.id DESC\<close>.\<close>

record session_summary =
  ss_id :: nat
  document_display_name :: "string option"
  last_answer :: "string option"

definition last_answer_of :: "database \<Rightarrow> nat \<Rightarrow> string option" where
  "last_answer_of d sid =
     (case rev (sort_key m_id (filter (\<lambda>m. m_chat_id m = sid) (chat_messages d))) of
        [] \<Rightarrow> None
      | m # _ \<Rightarrow> Some (m_answer m))"

definition get_chat_sessions :: "faults \<Rightarrow> database \<Rightarrow> session_summary list" where
  "get_chat_sessions fs d =
     (if 0 \<in> fs \<or> 1 \<in> fs then []
      else map (\<lambda>s. \<lparr>ss_id = s_id s,
                      document_display_name = s_document_display_name s,
                      last_answer = last_answer_of d (s_id s)\<rparr>)
             (rev (sort_key s_id (chat_sessions d))))"

text \<open>\<^verbatim>\<open>get_chat_metadata\<close>: \<open>0\<close> connect, \<open>1\<close> the \<^verbatim>\<open>SELECT ... WHERE id = ?\<close>;
  \<^verbatim>\<open>fetchone\<close> gives the first matching row or \<^verbatim>\<open>None\<close>.\<close>

definition get_chat_metadata :: "faults \<Rightarrow> nat \<Rightarrow> database \<Rightarrow> doc_meta option" where
  "get_chat_metadata fs cid d =
     (if 0 \<in> fs \<or> 1 \<in> fs then None
      else case find (\<lambda>s. s_id s = cid) (chat_sessions d) of
             None \<Rightarrow> None
           | Some row \<Rightarrow>
               Some \<lparr>path = s_document_path row,
                     unique_name = s_document_unique_name row,
                     name = s_document_display_name row\<rparr>)"

text \<open>\<^verbatim>\<open>delete_chat_session\<close>: \<open>0\<close> connect, \<open>1\<close> the \<^verbatim>\<open>DELETE\<close> on
  \<^verbatim>\<open>chat_messages\<close>, \<open>2\<close> the \<^verbatim>\<open>DELETE\<close> on \<^verbatim>\<open>chat_sessions\<close>, \<open>3\<close> the commit.
  Both statements run in the one transaction the first of them opens.\<close>

definition delete_chat_session :: "faults \<Rightarrow> nat \<Rightarrow> database \<Rightarrow> database" where
  "delete_chat_session fs cid d =
     (if 0 \<in> fs then d
      else if 1 \<in> fs then d
      else let d1 = delete_messages_of cid d in
        if 2 \<in> fs then d
        else let d2 = delete_session_row cid d1 in
          if 3 \<in> fs then d
          else d2)"

section \<open>The session state and its surroundings\<close>

text \<open>
  \<^verbatim>\<open>st.session_state\<close> carries \<^verbatim>\<open>chat_history\<close>, \<^verbatim>\<open>process_logs\<close>,
  \<^verbatim>\<open>current_document\<close>, \<^verbatim>\<open>vector_db\<close>, \<^verbatim>\<open>document_processed\<close> (initialised in
  \<^verbatim>\<open>streamlit_app.py\<close>), and \<^verbatim>\<open>chat_id\<close>, \<^verbatim>\<open>current_doc_hash\<close>, \<^verbatim>\<open>last_response\<close>,
  \<^verbatim>\<open>query_input\<close> (read with \<^verbatim>\<open>.get\<close>, so that a missing key and \<^verbatim>\<open>None\<close> are one
  case). Around it are the database, the directory \<^verbatim>\<open>./processed_docs\<close> (its files
  with the content of each, kept in the order of their creation, which is not the
  order of a listing; \<open>None\<close> when the directory is missing), and the trace of the calls
  made to
  \<^verbatim>\<open>create_vector_db_from_document\<close> (the path each was given), which the code does
  not keep and the model records to speak about index builds.
\<close>

type_synonym bytes = "8 word list"

datatype vector_db = VectorDb nat

record world =
  chat_history :: "chat_entry list"
  process_logs :: "string list"
  current_document :: "doc_meta option"
  vector_db :: "vector_db option"
  document_processed :: bool
  chat_id :: "nat option"
  current_doc_hash :: "string option"
  last_response :: "string option"
  query_input :: string
  db :: database
  upload_dir :: "(string \<times> bytes) list option"
  build_calls :: "string list"

text \<open>\<^verbatim>\<open>add_log\<close> and \<^verbatim>\<open>clear_logs\<close>; \<open>hms\<close> is the reading of the clock in the format
  \<^verbatim>\<open>%H:%M:%S\<close>.\<close>

definition add_log :: "string \<Rightarrow> string \<Rightarrow> string \<Rightarrow> world \<Rightarrow> world" where
  "add_log hms message log_type w =
     w\<lparr>process_logs := process_logs w @
         [''['' @ hms @ ''] '' @ log_type @ '': '' @ message]\<rparr>"

definition clear_logs :: "world \<Rightarrow> world" where
  "clear_logs w = w\<lparr>process_logs := []\<rparr>"

subsection \<open>Appending a turn: \<^verbatim>\<open>add_to_chat_history\<close>\<close>

text \<open>
  A block of the function either runs to its end or raises; both leave a state behind.
\<close>

datatype 'a outcome = Returned 'a | Raised 'a

text \<open>
  Lines 85 to 93: when no chat id is set, a session row is inserted, \<^verbatim>\<open>chat_id\<close> is
  set to \<^verbatim>\<open>cur.lastrowid\<close>, and the insertion is committed. Calls: \<open>0\<close> connect,
  \<open>1\<close> the \<^verbatim>\<open>INSERT\<close>, \<open>2\<close> the commit. The assignment to \<^verbatim>\<open>chat_id\<close> stands between
  the \<^verbatim>\<open>INSERT\<close> and the commit, so it survives a commit that raises, while the row
  is rolled back.
\<close>

definition persist_session :: "faults \<Rightarrow> string \<Rightarrow> world \<Rightarrow> world outcome" where
  "persist_session fs created w =
     (if chat_id w \<noteq> None then Returned w
      else if 0 \<in> fs then Raised w
      else if 1 \<in> fs then Raised w
      else case insert_session created (db w) of
        (new_id, d1) \<Rightarrow>
          let w1 = w\<lparr>chat_id := Some new_id\<rparr> in
          if 2 \<in> fs then Raised w1
          else Returned (w1\<lparr>db := d1\<rparr>))"

text \<open>
  Lines 95 to 129: \<open>3\<close> connect, \<open>4\<close> the \<^verbatim>\<open>INSERT\<close> of the message, \<open>5\<close> the
  \<^verbatim>\<open>UPDATE\<close> of the session's document columns (run only when
  \<^verbatim>\<open>current_document\<close> is set, and inside a \<^verbatim>\<open>try\<close> of its own, so that its failure
  is logged and the block goes on), \<open>6\<close> the commit. A \<^verbatim>\<open>chat_id\<close> of \<^verbatim>\<open>None\<close> cannot
  reach this block; it would violate \<^verbatim>\<open>NOT NULL\<close> and raise.
\<close>

definition persist_message :: "faults \<Rightarrow> chat_entry \<Rightarrow> world \<Rightarrow> world outcome" where
  "persist_message fs e w =
     (if 3 \<in> fs then Raised w
      else if 4 \<in> fs then Raised w
      else case chat_id w of
        None \<Rightarrow> Raised w
      | Some cid \<Rightarrow>
          let d1 = insert_message cid e (db w);
              d2 = (case current_document w of
                      None \<Rightarrow> d1
                    | Some doc \<Rightarrow> if 5 \<in> fs then d1 else update_session_doc doc cid d1)
          in if 6 \<in> fs then Raised w
             else Returned (w\<lparr>db := d2\<rparr>))"

text \<open>
  \<^verbatim>\<open>add_to_chat_history(question, answer, response_time, doc_name)\<close>. \<open>ts\<close> is the
  clock read for the entry (\<^verbatim>\<open>%Y-%m-%d %H:%M:%S\<close>), \<open>created\<close> the clock read for
  the session row. The entry is appended to \<^verbatim>\<open>chat_history\<close> before the \<^verbatim>\<open>try\<close>; the
  handler at line 130 only logs.
\<close>

definition add_to_chat_history ::
  "faults \<Rightarrow> string \<Rightarrow> string \<Rightarrow> string \<Rightarrow> string \<Rightarrow> real \<Rightarrow> string option \<Rightarrow> world \<Rightarrow> world"
where
  "add_to_chat_history fs ts created q a rt doc_name w =
     (let chat_entry = \<lparr>timestamp = ts, question = q, answer = a,
                        response_time = rt, document = doc_name\<rparr>;
          w0 = w\<lparr>chat_history := chat_history w @ [chat_entry]\<rparr>
      in case persist_session fs created w0 of
           Raised w1 \<Rightarrow> w1
         | Returned w1 \<Rightarrow>
             (case persist_message fs chat_entry w1 of
                Raised w2 \<Rightarrow> w2
              | Returned w2 \<Rightarrow> w2))"

subsection \<open>\<^verbatim>\<open>start_new_chat_session\<close>\<close>

text \<open>
  Calls: \<open>0\<close> connect, \<open>1\<close> the \<^verbatim>\<open>INSERT\<close>, \<open>2\<close> the commit. \<^verbatim>\<open>new_chat_id\<close> and
  \<^verbatim>\<open>chat_id\<close> are assigned before the commit. After the \<^verbatim>\<open>try\<close> the chat history, the
  process logs, the last response and the input box are reset; the function returns
  \<^verbatim>\<open>new_chat_id\<close>.
\<close>

definition start_new_chat_session :: "faults \<Rightarrow> string \<Rightarrow> world \<Rightarrow> nat option \<times> world" where
  "start_new_chat_session fs created w =
     (let (new_chat_id, w1) =
            (if 0 \<in> fs then (None, w)
             else if 1 \<in> fs then (None, w)
             else case insert_session created (db w) of
               (new_id, d1) \<Rightarrow>
                 let w' = w\<lparr>chat_id := Some new_id\<rparr> in
                 if 2 \<in> fs then (Some new_id, w')
                 else (Some new_id, w'\<lparr>db := d1\<rparr>))
      in (new_chat_id,
          w1\<lparr>chat_history := [], process_logs := [], last_response := None,
             query_input := []\<rparr>))"

section \<open>Storing an upload: \<^verbatim>\<open>save_uploaded_file\<close>\<close>

text \<open>
  \<^verbatim>\<open>Path(name).stem\<close> and \<^verbatim>\<open>.suffix\<close> as \<^verbatim>\<open>pathlib\<close> computes them on POSIX (Python
  up to 3.13): the name is the last component of the path, components being separated
  by \<^verbatim>\<open>/\<close> with empty ones and \<^verbatim>\<open>.\<close> dropped; with \<open>i\<close> the index of the last dot of the
  name, the suffix is \<^verbatim>\<open>name[i:]\<close> if \<^verbatim>\<open>0 < i < len(name) - 1\<close> and empty otherwise,
  the stem is \<^verbatim>\<open>name[:i]\<close> under the same condition and the name otherwise.
\<close>

fun split_on :: "char \<Rightarrow> string \<Rightarrow> string list" where
  "split_on c [] = [[]]"
| "split_on c (x # xs) =
     (if x = c then [] # split_on c xs
      else case split_on c xs of
             [] \<Rightarrow> [[x]]
           | y # ys \<Rightarrow> (x # y) # ys)"

definition path_name :: "string \<Rightarrow> string" where
  "path_name p =
     (case rev (filter (\<lambda>c. c \<noteq> [] \<and> c \<noteq> ''.'') (split_on CHR ''/'' p)) of
        [] \<Rightarrow> []
      | c # _ \<Rightarrow> c)"

definition rfind :: "char \<Rightarrow> string \<Rightarrow> int" where
  "rfind c s = int (length (dropWhile (\<lambda>x. x \<noteq> c) (rev s))) - 1"

definition path_suffix :: "string \<Rightarrow> string" where
  "path_suffix p =
     (let nm = path_name p; i = rfind CHR ''.'' nm
      in if 0 < i \<and> i < int (length nm) - 1 then drop (nat i) nm else [])"

definition path_stem :: "string \<Rightarrow> string" where
  "path_stem p =
     (let nm = path_name p; i = rfind CHR ''.'' nm
      in if 0 < i \<and> i < int (length nm) - 1 then take (nat i) nm else nm)"

definition UPLOAD_DIRECTORY :: string where
  "UPLOAD_DIRECTORY = ''./processed_docs''"

text \<open>\<^verbatim>\<open>os.path.join(UPLOAD_DIRECTORY, f).replace(os.sep, '/')\<close> for a file name \<open>f\<close>
  (a name of a directory listing, or a stem with a suffix: neither starts with a
  slash).\<close>

definition join_upload :: "string \<Rightarrow> string" where
  "join_upload f = UPLOAD_DIRECTORY @ ''/'' @ f"

record uploaded_file =
  uf_name :: string
  uf_bytes :: bytes

text \<open>
  \<^verbatim>\<open>os.listdir\<close> gives the names in an arbitrary order, which need not be the order
  of creation and may differ from call to call. The order of one call is an argument of
  the model: a rank of the names, by which the stored names are sorted. Every rank
  gives a rearrangement of the stored names, and every arrangement of distinct names
  comes from a rank.

  What may raise inside the \<^verbatim>\<open>try\<close> of \<^verbatim>\<open>save_uploaded_file\<close>: \<^verbatim>\<open>os.listdir\<close>,
  \<^verbatim>\<open>os.makedirs\<close>, \<^verbatim>\<open>open\<close>, and \<^verbatim>\<open>f.write\<close> (which leaves the file created, with the
  bytes that got through). Each carries the text of the exception, which the handler
  logs.
\<close>

datatype save_fault =
    SaveOk
  | ListdirRaises string
  | MakedirsRaises string
  | OpenRaises string
  | WriteRaises bytes string

definition write_file :: "string \<Rightarrow> bytes \<Rightarrow> (string \<times> bytes) list \<Rightarrow> (string \<times> bytes) list" where
  "write_file f content files = filter (\<lambda>e. fst e \<noteq> f) files @ [(f, content)]"

type_synonym listdir_rank = "string \<Rightarrow> nat"

definition listing :: "listdir_rank \<Rightarrow> world \<Rightarrow> string list" where
  "listing rk w =
     (case upload_dir w of None \<Rightarrow> [] | Some files \<Rightarrow> sort_key rk (map fst files))"

definition ensure_dir :: "world \<Rightarrow> (string \<times> bytes) list" where
  "ensure_dir w = (case upload_dir w of None \<Rightarrow> [] | Some files \<Rightarrow> files)"

definition save_failed :: "string \<Rightarrow> string \<Rightarrow> world \<Rightarrow> (string option \<times> string option) \<times> world" where
  "save_failed hms msg w = ((None, None), add_log hms (''Error saving file: '' @ msg) ''ERROR'' w)"

text \<open>
  \<open>hms\<close> is the clock as \<^verbatim>\<open>add_log\<close> reads it, \<open>ymd\<close> the clock in the format
  \<^verbatim>\<open>%Y%m%d\<close>, \<open>rk\<close> the order in which \<^verbatim>\<open>os.listdir\<close> lists the directory. The scan
  (lines 265 to 271) returns at the first listed name that starts with the stem
  followed by an underscore.
\<close>

definition save_uploaded_file ::
  "save_fault \<Rightarrow> listdir_rank \<Rightarrow> string \<Rightarrow> string \<Rightarrow> uploaded_file \<Rightarrow> world
     \<Rightarrow> (string option \<times> string option) \<times> world"
where
  "save_uploaded_file sf rk hms ymd uf w =
     (let file_extension = path_suffix (uf_name uf);
          original_name = path_stem (uf_name uf)
      in case (if upload_dir w \<noteq> None then sf else SaveOk) of
           ListdirRaises msg \<Rightarrow> save_failed hms msg w
         | _ \<Rightarrow>
           (case find (\<lambda>current_file. prefix (original_name @ ''_'') current_file)
                   (listing rk w) of
              Some current_file \<Rightarrow>
                ((Some (join_upload current_file), Some current_file),
                 add_log hms (''SAME Document found in memory: '' @ current_file) ''INFO'' w)
            | None \<Rightarrow>
                let unique_filename = original_name @ ''_'' @ ymd @ file_extension;
                    file_path = join_upload unique_filename
                in (case sf of
                      MakedirsRaises msg \<Rightarrow> save_failed hms msg w
                    | OpenRaises msg \<Rightarrow>
                        save_failed hms msg (w\<lparr>upload_dir := Some (ensure_dir w)\<rparr>)
                    | WriteRaises part msg \<Rightarrow>
                        save_failed hms msg
                          (w\<lparr>upload_dir := Some (write_file unique_filename part (ensure_dir w))\<rparr>)
                    | _ \<Rightarrow>
                        ((Some file_path, Some unique_filename),
                         add_log hms (''File saved successfully: '' @ unique_filename) ''INFO''
                           (add_log hms (''This file: '' @ unique_filename @ '', got the FIRST time'') ''INFO''
                             (w\<lparr>upload_dir :=
                                  Some (write_file unique_filename (uf_bytes uf) (ensure_dir w))\<rparr>))))))"

section \<open>The orchestrator of \<^verbatim>\<open>rag_functions.py\<close> and \<^verbatim>\<open>streamlit_app.py\<close>\<close>

text \<open>
  \<^verbatim>\<open>get_file_hash\<close> is \<^verbatim>\<open>hashlib.md5(file_content).hexdigest()\<close>; the digest function
  of the library is a parameter.
\<close>

definition get_file_hash :: "(bytes \<Rightarrow> string) \<Rightarrow> bytes \<Rightarrow> string" where
  "get_file_hash md5_hexdigest file_content = md5_hexdigest file_content"

text \<open>
  \<^verbatim>\<open>create_vector_db_from_document(doc_path)\<close> pulls the embedding model, loads and
  splits the document and hands the chunks to Chroma: all of it work of libraries
  outside the repository. What they answer is an argument of the model: the lines the
  call logs, and whether it raises (with the text of the exception), returns
  \<^verbatim>\<open>None\<close> or returns an index. The model records the call in \<open>build_calls\<close>.
\<close>

datatype build_result = BuildRaises string | BuildReturns "vector_db option"

record build_oracle =
  b_logs :: "string list"
  b_result :: build_result

definition create_vector_db_from_document ::
  "build_oracle \<Rightarrow> string \<Rightarrow> world \<Rightarrow> build_result \<times> world"
where
  "create_vector_db_from_document bo doc_path w =
     (b_result bo,
      w\<lparr>process_logs := process_logs w @ b_logs bo,
        build_calls := build_calls w @ [doc_path]\<rparr>)"

text \<open>
  \<^verbatim>\<open>process_query(user_input, overall_start)\<close> asks the preloaded model with the
  chunks retrieved from \<^verbatim>\<open>st.session_state.vector_db\<close>. The libraries decide whether
  the model is unavailable (the function returns), a call raises (the handler logs), or
  an answer comes back with its measured response time; then the answer is kept in
  \<^verbatim>\<open>last_response\<close> and \<^verbatim>\<open>add_to_chat_history\<close> is called with the display name of
  the current document, or \<^verbatim>\<open>"Unknown"\<close> when there is none. The lines the function
  and its callees log carry formatted times and counts; they come with the libraries'
  answer and are appended as a whole. What the function draws on the page (metrics,
  expanders) is not part of the state, and a call that raises is taken to raise before
  the answer is stored.
\<close>

datatype query_result = ModelUnavailable | QueryRaises | Answered string real

record query_oracle =
  q_logs :: "string list"
  q_result :: query_result

text \<open>The readings of the clock during one operation, one per format: within one
  operation the model reads each format once, where the code calls
  \<^verbatim>\<open>datetime.now()\<close> at every use.\<close>

record clock =
  hms :: string
  now :: string
  ymd :: string

definition process_query :: "faults \<Rightarrow> clock \<Rightarrow> query_oracle \<Rightarrow> string \<Rightarrow> world \<Rightarrow> world" where
  "process_query fs ck qo user_input w =
     (let w1 = w\<lparr>process_logs := process_logs w @ q_logs qo\<rparr>
      in case q_result qo of
           ModelUnavailable \<Rightarrow> w1
         | QueryRaises \<Rightarrow> w1
         | Answered response rt \<Rightarrow>
             add_to_chat_history fs (now ck) (now ck) user_input response rt
               (case current_document w1 of
                  Some doc \<Rightarrow> name doc
                | None \<Rightarrow> Some ''Unknown'')
               (w1\<lparr>last_response := Some response\<rparr>))"

text \<open>
  \<^verbatim>\<open>process_query_with_document(user_input, uploaded_file)\<close>, lines 202 to 252. The
  guard \<^verbatim>\<open>if not file_path\<close> also takes an empty path; the handler at line 244 logs
  an exception of the build.
\<close>

definition process_query_with_document ::
  "(bytes \<Rightarrow> string) \<Rightarrow> save_fault \<Rightarrow> listdir_rank \<Rightarrow> build_oracle \<Rightarrow> query_oracle
     \<Rightarrow> faults \<Rightarrow> clock
     \<Rightarrow> string \<Rightarrow> uploaded_file \<Rightarrow> world \<Rightarrow> world"
where
  "process_query_with_document md5_hexdigest sf rk bo qo fs ck user_input uf w =
     (let file_hash = get_file_hash md5_hexdigest (uf_bytes uf) in
      if Some file_hash \<noteq> current_doc_hash w then
        let w1 = add_log (hms ck) (''Processing new document: '' @ uf_name uf) ''INFO''
                   (clear_logs w)
        in case save_uploaded_file sf rk (hms ck) (ymd ck) uf w1 of
             ((None, unique_filename), w2) \<Rightarrow> w2
           | ((Some file_path, unique_filename), w2) \<Rightarrow>
               if file_path = [] then w2
               else
                 let w3 = w2\<lparr>current_document :=
                                Some \<lparr>path = Some file_path, unique_name = unique_filename,
                                      name = Some (uf_name uf)\<rparr>,
                              current_doc_hash := Some file_hash\<rparr>
                 in (case create_vector_db_from_document bo file_path w3 of
                       (BuildRaises msg, w4) \<Rightarrow>
                         add_log (hms ck) (''An error occurred: '' @ msg) ''ERROR'' w4
                     | (BuildReturns None, w4) \<Rightarrow> w4
                     | (BuildReturns (Some vdb), w4) \<Rightarrow>
                         process_query fs ck qo user_input
                           (w4\<lparr>vector_db := Some vdb, document_processed := True\<rparr>))
      else (case vector_db w of
              Some vdb \<Rightarrow> process_query fs ck qo user_input w
            | None \<Rightarrow> w))"

text \<open>
  The session switch of \<^verbatim>\<open>main\<close>, lines 147 to 160, for the id the radio selects.
  \<^verbatim>\<open>meta and meta.get('path')\<close> holds when a row was found and its path is neither
  NULL nor empty. \<open>fs\<close> are the failures of \<^verbatim>\<open>get_chat_metadata\<close>. The branch has
  no \<^verbatim>\<open>else\<close>: without a path only \<^verbatim>\<open>chat_id\<close> is assigned before
  \<^verbatim>\<open>st.rerun()\<close>.
\<close>

definition switch_session :: "faults \<Rightarrow> build_oracle \<Rightarrow> nat \<Rightarrow> world \<Rightarrow> world" where
  "switch_session fs bo selected_id w =
     (if chat_id w \<noteq> Some selected_id then
        let w1 = w\<lparr>chat_id := Some selected_id\<rparr> in
        case get_chat_metadata fs selected_id (db w1) of
          None \<Rightarrow> w1
        | Some meta \<Rightarrow>
            (case path meta of
               None \<Rightarrow> w1
             | Some p \<Rightarrow>
                 if p = [] then w1
                 else
                   let w2 = w1\<lparr>current_document := Some meta\<rparr> in
                   (case create_vector_db_from_document bo p w2 of
                      (BuildReturns (Some vdb), w3) \<Rightarrow>
                        w3\<lparr>vector_db := Some vdb, document_processed := True\<rparr>
                    | (_, w3) \<Rightarrow> w3))
      else w)"

text \<open>
  The branch of \<^verbatim>\<open>main\<close> (lines 83 to 87) that answers a question: with an upload
  through \<^verbatim>\<open>process_query_with_document\<close>, without one through \<^verbatim>\<open>process_query\<close> if
  \<^verbatim>\<open>vector_db\<close> is set, and not at all otherwise. A state in which a question without
  an upload goes unanswered is one that needs a document.
\<close>

definition needs_document :: "world \<Rightarrow> bool" where
  "needs_document w = (vector_db w = None)"

section \<open>Notions the properties are stated with\<close>

text \<open>The foreign key of the schema: every message row names a session row.\<close>

definition fk_ok :: "database \<Rightarrow> bool" where
  "fk_ok d = (\<forall>m \<in> set (chat_messages d). m_chat_id m \<in> s_id ` set (chat_sessions d))"

text \<open>
  A fresh session: either no chat id is set yet (the first append will create the
  session) and the stored messages respect the foreign key, or the current session has
  no message.
\<close>

definition fresh_session :: "world \<Rightarrow> bool" where
  "fresh_session w =
     (case chat_id w of
        None \<Rightarrow> fk_ok (db w)
      | Some n \<Rightarrow> \<not> (\<exists>m \<in> set (chat_messages (db w)). m_chat_id m = n))"

text \<open>The current chat id, when set, names a stored session row.\<close>

definition session_known :: "world \<Rightarrow> bool" where
  "session_known w =
     (case chat_id w of
        None \<Rightarrow> True
      | Some n \<Rightarrow> n \<in> s_id ` set (chat_sessions (db w)))"

text \<open>A sequence of calls of \<^verbatim>\<open>add_to_chat_history\<close>, none of which meets a failure of
  the store; each call has its arguments and its two readings of the clock.\<close>

record append_call =
  ac_ts :: string
  ac_created :: string
  ac_question :: string
  ac_answer :: string
  ac_response_time :: real
  ac_doc_name :: "string option"

definition entry_of_call :: "append_call \<Rightarrow> chat_entry" where
  "entry_of_call c =
     \<lparr>timestamp = ac_ts c, question = ac_question c, answer = ac_answer c,
      response_time = ac_response_time c, document = ac_doc_name c\<rparr>"

fun append_all :: "append_call list \<Rightarrow> world \<Rightarrow> world" where
  "append_all [] w = w"
| "append_all (c # cs) w =
     append_all cs
       (add_to_chat_history {} (ac_ts c) (ac_created c) (ac_question c) (ac_answer c)
          (ac_response_time c) (ac_doc_name c) w)"

section \<open>Concrete states and inputs\<close>

text \<open>The state of a new process over an empty database and an empty upload directory.\<close>

definition w_empty :: world where
  "w_empty =
     \<lparr>chat_history = [], process_logs = [], current_document = None, vector_db = None,
      document_processed = False, chat_id = None, current_doc_hash = None,
      last_response = None, query_input = [],
      db = \<lparr>chat_sessions = [], chat_messages = [], seq_chat_sessions = 0,
             seq_chat_messages = 0\<rparr>,
      upload_dir = Some [], build_calls = []\<rparr>"

definition ck0 :: clock where
  "ck0 = \<lparr>hms = ''10:00:00'', now = ''2024-01-01 10:00:00'', ymd = ''20240101''\<rparr>"

definition ck1 :: clock where
  "ck1 = \<lparr>hms = ''11:30:00'', now = ''2024-01-02 11:30:00'', ymd = ''20240102''\<rparr>"

definition ck_third :: clock where
  "ck_third = \<lparr>hms = ''09:00:00'', now = ''2024-01-03 09:00:00'', ymd = ''20240103''\<rparr>"

text \<open>Libraries that answer: the build returns an index, the model returns \<^verbatim>\<open>"42"\<close>.\<close>

definition bo_ok :: build_oracle where
  "bo_ok = \<lparr>b_logs = [], b_result = BuildReturns (Some (VectorDb 1))\<rparr>"

definition qo_ok :: query_oracle where
  "qo_ok = \<lparr>q_logs = [], q_result = Answered ''42'' (1 / 2)\<rparr>"

text \<open>A stand-in for the digest of the library, for running the model on examples: it
  is a function of the bytes, which is all the examples use.\<close>

definition digest0 :: "bytes \<Rightarrow> string" where
  "digest0 bs = map (\<lambda>b. if b = 0 then CHR ''0'' else CHR ''1'') bs"

definition report_pdf :: uploaded_file where
  "report_pdf = \<lparr>uf_name = ''report.pdf'', uf_bytes = [1, 2, 3]\<rparr>"

definition summary_pdf :: uploaded_file where
  "summary_pdf = \<lparr>uf_name = ''summary.pdf'', uf_bytes = [1, 2, 3]\<rparr>"

definition report_1_pdf :: uploaded_file where
  "report_1_pdf = \<lparr>uf_name = ''report_1.pdf'', uf_bytes = [7, 7]\<rparr>"

text \<open>Another file that is also named \<^verbatim>\<open>report.pdf\<close>.\<close>

definition report_pdf_other :: uploaded_file where
  "report_pdf_other = \<lparr>uf_name = ''report.pdf'', uf_bytes = [9, 9]\<rparr>"

text \<open>Two orders of listing: the order of creation, and one that puts
  \<^verbatim>\<open>report_1_20240102.pdf\<close> first, as an alphabetical listing does.\<close>

definition rk_created :: listdir_rank where
  "rk_created f = 0"

definition rk_report_1_first :: listdir_rank where
  "rk_report_1_first f = (if f = ''report_1_20240102.pdf'' then 0 else 1)"

text \<open>The state after the first turn: \<^verbatim>\<open>report.pdf\<close> uploaded with a question.\<close>

definition w_report :: world where
  "w_report =
     process_query_with_document digest0 SaveOk rk_created bo_ok qo_ok {} ck0
       ''What is the total?'' report_pdf w_empty"

text \<open>Then "New Chat" is pressed (session 2, which never gets a document), the radio
  goes back to chat 1, and then to chat 2 again.\<close>

definition w_new_chat :: world where
  "w_new_chat = snd (start_new_chat_session {} ''2024-01-01 10:05:00'' w_report)"


text \<open>The state after \<^verbatim>\<open>report.pdf\<close> was saved on one day and \<^verbatim>\<open>report_1.pdf\<close> on the
  next.\<close>

definition w_two_reports :: world where
  "w_two_reports =
     snd (save_uploaded_file SaveOk rk_created ''11:30:00'' ''20240102'' report_1_pdf
       (snd (save_uploaded_file SaveOk rk_created ''10:00:00'' ''20240101'' report_pdf
          w_empty)))"

text \<open>The same first turn with the same bytes under another file name.\<close>

definition w_summary :: world where
  "w_summary =
     process_query_with_document digest0 SaveOk rk_created bo_ok qo_ok {} ck0
       ''What is the total?'' summary_pdf w_empty"

text \<open>Two appended turns.\<close>

definition two_calls :: "append_call list" where
  "two_calls =
     [\<lparr>ac_ts = ''2024-01-01 10:00:00'', ac_created = ''2024-01-01 10:00:01'',
       ac_question = ''first'', ac_answer = ''one'', ac_response_time = 1,
       ac_doc_name = Some ''report.pdf''\<rparr>,
      \<lparr>ac_ts = ''2024-01-01 10:02:00'', ac_created = ''2024-01-01 10:02:01'',
       ac_question = ''second'', ac_answer = ''two'', ac_response_time = 2,
       ac_doc_name = Some ''report.pdf''\<rparr>]"

section \<open>Auxiliary facts\<close>

subsection \<open>Row ids\<close>

lemma fold_max_ge: "(acc::nat) \<le> fold max ids acc"
  by (induction ids arbitrary: acc) (auto intro: order_trans[OF max.cobounded2])

lemma fold_max_mem: "i \<in> set ids \<Longrightarrow> (i::nat) \<le> fold max ids acc"
  by (induction ids arbitrary: acc) (auto intro: order_trans[OF max.cobounded1 fold_max_ge])

lemma next_rowid_gt: "i \<in> set ids \<Longrightarrow> i < next_rowid seq ids"
  by (simp add: next_rowid_def fold_max_mem less_Suc_eq_le)

lemma next_rowid_fresh: "next_rowid seq ids \<notin> set ids"
  using next_rowid_gt by blast

subsection \<open>Sorting a table to which the row with the largest id was appended\<close>

lemma insort_key_snoc:
  "f a \<le> f x \<Longrightarrow> insort_key f a (ys @ [x]) = insort_key f a ys @ [x]"
  by (induction ys) auto

lemma sort_key_snoc:
  "\<forall>y \<in> set xs. f y \<le> f x \<Longrightarrow> sort_key f (xs @ [x]) = sort_key f xs @ [x]"
  by (induction xs) (auto simp add: insort_key_snoc)

lemma map_insort_key: "map f (insort_key f x xs) = insort (f x) (map f xs)"
  by (induction xs) auto

lemma map_sort_key: "map f (sort_key f xs) = sort (map f xs)"
  by (induction xs) (auto simp add: map_insort_key)

subsection \<open>Searching a list\<close>


lemma find_first:
  "P x \<Longrightarrow> \<forall>y \<in> set pre. \<not> P y \<Longrightarrow> find P (pre @ x # post) = Some x"
  by (induction pre) auto

lemma find_none: "\<forall>y \<in> set xs. \<not> P y \<Longrightarrow> find P xs = None"
  by (induction xs) auto

lemma find_no_row: "cid \<notin> s_id ` set xs \<Longrightarrow> find (\<lambda>s. s_id s = cid) xs = None"
  by (induction xs) auto

subsection \<open>What the operations leave alone\<close>

lemma add_log_frame:
  "build_calls (add_log t m k w) = build_calls w"
  "vector_db (add_log t m k w) = vector_db w"
  "current_doc_hash (add_log t m k w) = current_doc_hash w"
  "current_document (add_log t m k w) = current_document w"
  "upload_dir (add_log t m k w) = upload_dir w"
  "chat_id (add_log t m k w) = chat_id w"
  "db (add_log t m k w) = db w"
  by (simp_all add: add_log_def)

lemma add_to_chat_history_frame:
  "build_calls (add_to_chat_history fs ts created q a rt dn w) = build_calls w"
  "vector_db (add_to_chat_history fs ts created q a rt dn w) = vector_db w"
  "current_doc_hash (add_to_chat_history fs ts created q a rt dn w) = current_doc_hash w"
  "current_document (add_to_chat_history fs ts created q a rt dn w) = current_document w"
  "upload_dir (add_to_chat_history fs ts created q a rt dn w) = upload_dir w"
  by (simp_all add: add_to_chat_history_def persist_session_def persist_message_def Let_def
      split: option.splits prod.splits outcome.splits)

lemma process_query_frame:
  "build_calls (process_query fs ck qo ui w) = build_calls w"
  "vector_db (process_query fs ck qo ui w) = vector_db w"
  "current_doc_hash (process_query fs ck qo ui w) = current_doc_hash w"
  "current_document (process_query fs ck qo ui w) = current_document w"
  "upload_dir (process_query fs ck qo ui w) = upload_dir w"
  by (simp_all add: process_query_def add_to_chat_history_frame Let_def
      split: query_result.splits)

lemma save_uploaded_file_frame:
  "build_calls (snd (save_uploaded_file sf rk t y uf w)) = build_calls w"
  "vector_db (snd (save_uploaded_file sf rk t y uf w)) = vector_db w"
  "current_doc_hash (snd (save_uploaded_file sf rk t y uf w)) = current_doc_hash w"
  "current_document (snd (save_uploaded_file sf rk t y uf w)) = current_document w"
  by (simp_all add: save_uploaded_file_def save_failed_def add_log_frame Let_def
      split: save_fault.splits option.splits)

lemma messages_update_session_doc [simp]:
  "chat_messages (update_session_doc doc cid d) = chat_messages d"
  by (simp add: update_session_doc_def)

lemma sessions_insert_message [simp]:
  "chat_sessions (insert_message cid e d) = chat_sessions d"
  by (simp add: insert_message_def Let_def)

lemma get_chat_messages_update [simp]:
  "get_chat_messages fs n (update_session_doc doc cid d) = get_chat_messages fs n d"
  by (simp add: get_chat_messages_def)

subsection \<open>The example states, evaluated\<close>

lemma stem_report: "path_stem ''report.pdf'' = ''report''"
  by (simp add: path_stem_def path_name_def rfind_def)

lemma suffix_report: "path_suffix ''report.pdf'' = ''.pdf''"
  by (simp add: path_suffix_def path_name_def rfind_def)

lemma stem_summary: "path_stem ''summary.pdf'' = ''summary''"
  by (simp add: path_stem_def path_name_def rfind_def)

lemma suffix_summary: "path_suffix ''summary.pdf'' = ''.pdf''"
  by (simp add: path_suffix_def path_name_def rfind_def)

lemma stem_report_1: "path_stem ''report_1.pdf'' = ''report_1''"
  by (simp add: path_stem_def path_name_def rfind_def)

lemma suffix_report_1: "path_suffix ''report_1.pdf'' = ''.pdf''"
  by (simp add: path_suffix_def path_name_def rfind_def)

lemmas run_defs =
  process_query_with_document_def get_file_hash_def digest0_def w_empty_def
  ck0_def ck1_def ck_third_def bo_ok_def qo_ok_def add_log_def clear_logs_def
  save_uploaded_file_def save_failed_def report_pdf_def summary_pdf_def
  report_1_pdf_def report_pdf_other_def rk_created_def rk_report_1_first_def
  stem_report_1 suffix_report_1
  stem_report suffix_report stem_summary suffix_summary listing_def
  join_upload_def UPLOAD_DIRECTORY_def write_file_def ensure_dir_def
  create_vector_db_from_document_def process_query_def add_to_chat_history_def
  persist_session_def persist_message_def insert_session_def insert_message_def
  update_session_doc_def next_rowid_def start_new_chat_session_def switch_session_def
  get_chat_metadata_def get_chat_messages_def get_chat_sessions_def last_answer_of_def
  entry_of_row_def delete_chat_session_def delete_messages_of_def delete_session_row_def
  needs_document_def Let_def

lemma w_report_eq:
  "w_report =
   \<lparr>chat_history =
      [\<lparr>timestamp = ''2024-01-01 10:00:00'', question = ''What is the total?'',
        answer = ''42'', response_time = 1 / 2, document = Some ''report.pdf''\<rparr>],
    process_logs =
      [''[10:00:00] INFO: Processing new document: report.pdf'',
       ''[10:00:00] INFO: This file: report_20240101.pdf, got the FIRST time'',
       ''[10:00:00] INFO: File saved successfully: report_20240101.pdf''],
    current_document =
      Some \<lparr>path = Some ''./processed_docs/report_20240101.pdf'',
            unique_name = Some ''report_20240101.pdf'', name = Some ''report.pdf''\<rparr>,
    vector_db = Some (VectorDb 1), document_processed = True,
    chat_id = Some 1, current_doc_hash = Some ''111'',
    last_response = Some ''42'', query_input = [],
    db = \<lparr>chat_sessions =
            [\<lparr>s_id = 1, s_created_at = ''2024-01-01 10:00:00'',
              s_document_path = Some ''./processed_docs/report_20240101.pdf'',
              s_document_unique_name = Some ''report_20240101.pdf'',
              s_document_display_name = Some ''report.pdf''\<rparr>],
          chat_messages =
            [\<lparr>m_id = 1, m_chat_id = 1, m_timestamp = ''2024-01-01 10:00:00'',
              m_question = ''What is the total?'', m_answer = ''42'',
              m_response_time = 1 / 2, m_document = Some ''report.pdf''\<rparr>],
          seq_chat_sessions = 1, seq_chat_messages = 1\<rparr>,
    upload_dir = Some [(''report_20240101.pdf'', [1, 2, 3])],
    build_calls = [''./processed_docs/report_20240101.pdf'']\<rparr>"
  unfolding w_report_def by (simp add: run_defs)

lemma w_summary_eq:
  "w_summary =
   \<lparr>chat_history =
      [\<lparr>timestamp = ''2024-01-01 10:00:00'', question = ''What is the total?'',
        answer = ''42'', response_time = 1 / 2, document = Some ''summary.pdf''\<rparr>],
    process_logs =
      [''[10:00:00] INFO: Processing new document: summary.pdf'',
       ''[10:00:00] INFO: This file: summary_20240101.pdf, got the FIRST time'',
       ''[10:00:00] INFO: File saved successfully: summary_20240101.pdf''],
    current_document =
      Some \<lparr>path = Some ''./processed_docs/summary_20240101.pdf'',
            unique_name = Some ''summary_20240101.pdf'', name = Some ''summary.pdf''\<rparr>,
    vector_db = Some (VectorDb 1), document_processed = True,
    chat_id = Some 1, current_doc_hash = Some ''111'',
    last_response = Some ''42'', query_input = [],
    db = \<lparr>chat_sessions =
            [\<lparr>s_id = 1, s_created_at = ''2024-01-01 10:00:00'',
              s_document_path = Some ''./processed_docs/summary_20240101.pdf'',
              s_document_unique_name = Some ''summary_20240101.pdf'',
              s_document_display_name = Some ''summary.pdf''\<rparr>],
          chat_messages =
            [\<lparr>m_id = 1, m_chat_id = 1, m_timestamp = ''2024-01-01 10:00:00'',
              m_question = ''What is the total?'', m_answer = ''42'',
              m_response_time = 1 / 2, m_document = Some ''summary.pdf''\<rparr>],
          seq_chat_sessions = 1, seq_chat_messages = 1\<rparr>,
    upload_dir = Some [(''summary_20240101.pdf'', [1, 2, 3])],
    build_calls = [''./processed_docs/summary_20240101.pdf'']\<rparr>"
  unfolding w_summary_def by (simp add: run_defs)

lemma w_new_chat_eq:
  "w_new_chat =
   \<lparr>chat_history = [], process_logs = [],
    current_document =
      Some \<lparr>path = Some ''./processed_docs/report_20240101.pdf'',
            unique_name = Some ''report_20240101.pdf'', name = Some ''report.pdf''\<rparr>,
    vector_db = Some (VectorDb 1), document_processed = True,
    chat_id = Some 2, current_doc_hash = Some ''111'',
    last_response = None, query_input = [],
    db = \<lparr>chat_sessions =
            [\<lparr>s_id = 1, s_created_at = ''2024-01-01 10:00:00'',
              s_document_path = Some ''./processed_docs/report_20240101.pdf'',
              s_document_unique_name = Some ''report_20240101.pdf'',
              s_document_display_name = Some ''report.pdf''\<rparr>,
             \<lparr>s_id = 2, s_created_at = ''2024-01-01 10:05:00'',
              s_document_path = None, s_document_unique_name = None,
              s_document_display_name = None\<rparr>],
          chat_messages =
            [\<lparr>m_id = 1, m_chat_id = 1, m_timestamp = ''2024-01-01 10:00:00'',
              m_question = ''What is the total?'', m_answer = ''42'',
              m_response_time = 1 / 2, m_document = Some ''report.pdf''\<rparr>],
          seq_chat_sessions = 2, seq_chat_messages = 1\<rparr>,
    upload_dir = Some [(''report_20240101.pdf'', [1, 2, 3])],
    build_calls = [''./processed_docs/report_20240101.pdf'']\<rparr>"
  unfolding w_new_chat_def by (simp add: w_report_eq run_defs)


lemma w_two_reports_eq:
  "w_two_reports =
     w_empty\<lparr>process_logs :=
         [''[10:00:00] INFO: This file: report_20240101.pdf, got the FIRST time'',
          ''[10:00:00] INFO: File saved successfully: report_20240101.pdf'',
          ''[11:30:00] INFO: This file: report_1_20240102.pdf, got the FIRST time'',
          ''[11:30:00] INFO: File saved successfully: report_1_20240102.pdf''],
       upload_dir :=
         Some [(''report_20240101.pdf'', [1, 2, 3]), (''report_1_20240102.pdf'', [7, 7])]\<rparr>"
  unfolding w_two_reports_def by (simp add: run_defs)

section \<open>The session switch (C1)\<close>




section \<open>Deleting a session (C2)\<close>

text \<open>
  C2: \<^verbatim>\<open>delete_chat_session\<close> is atomic. When none of its four calls into the store
  raises, the messages of the session and its row are gone, a later
  \<^verbatim>\<open>get_chat_messages\<close> for the id is empty and \<^verbatim>\<open>get_chat_sessions\<close> does not list
  the id; when one raises, the database is the one from before, so no message is left
  without its session.
\<close>

theorem delete_chat_session_atomic:
  "(fs \<inter> {0, 1, 2, 3} = {} \<longrightarrow>
      chat_messages (delete_chat_session fs cid d) =
        filter (\<lambda>m. m_chat_id m \<noteq> cid) (chat_messages d) \<and>
      chat_sessions (delete_chat_session fs cid d) =
        filter (\<lambda>s. s_id s \<noteq> cid) (chat_sessions d) \<and>
      get_chat_messages fs1 cid (delete_chat_session fs cid d) = [] \<and>
      cid \<notin> ss_id ` set (get_chat_sessions fs2 (delete_chat_session fs cid d))) \<and>
   (fs \<inter> {0, 1, 2, 3} \<noteq> {} \<longrightarrow> delete_chat_session fs cid d = d)"
  by (auto simp add: delete_chat_session_def delete_messages_of_def delete_session_row_def
      get_chat_messages_def get_chat_sessions_def Let_def image_image)

theorem delete_chat_session_atomic_witness:
  "({} :: nat set) \<inter> {0, 1, 2, 3} = {} \<and>
   get_chat_messages {} 1 (db w_report) \<noteq> [] \<and>
   get_chat_messages {} 1 (delete_chat_session {} 1 (db w_report)) = [] \<and>
   1 \<notin> ss_id ` set (get_chat_sessions {} (delete_chat_session {} 1 (db w_report))) \<and>
   ({2} :: nat set) \<inter> {0, 1, 2, 3} \<noteq> {} \<and>
   delete_chat_session {2} 1 (db w_report) = db w_report"
proof -
  have 1: "({} :: nat set) \<inter> {0, 1, 2, 3} = {}" by simp
  have 2: "({2} :: nat set) \<inter> {0, 1, 2, 3} \<noteq> {}" by simp
  have 3: "get_chat_messages {} 1 (db w_report) \<noteq> []"
    by (simp add: w_report_eq get_chat_messages_def)
  from delete_chat_session_atomic[of "{}" 1 "db w_report" "{}" "{}"]
    delete_chat_session_atomic[of "{2}" 1 "db w_report" "{}" "{}"] 1 2 3
  show ?thesis by simp
qed


section \<open>Uploads and index builds (C3)\<close>

lemma save_uploaded_file_path:
  "fst (fst (save_uploaded_file sf rk t y uf w)) = Some p \<Longrightarrow> p \<noteq> []"
  by (auto simp add: save_uploaded_file_def save_failed_def join_upload_def UPLOAD_DIRECTORY_def
      Let_def split: save_fault.splits option.splits if_splits)

lemma save_uploaded_file_ok:
  "fst (fst (save_uploaded_file SaveOk rk t y uf w)) \<noteq> None"
  by (simp add: save_uploaded_file_def Let_def split: option.splits)

lemma same_hash_no_build:
  assumes "current_doc_hash w = Some (get_file_hash dg (uf_bytes uf))"
  shows "build_calls (process_query_with_document dg sf rk bo qo fs ck ui uf w) = build_calls w"
    and "vector_db (process_query_with_document dg sf rk bo qo fs ck ui uf w) = vector_db w"
    and "current_doc_hash (process_query_with_document dg sf rk bo qo fs ck ui uf w) =
           current_doc_hash w"
  using assms
  by (simp_all add: process_query_with_document_def process_query_frame split: option.splits)

lemma new_hash_build:
  assumes "current_doc_hash w \<noteq> Some (get_file_hash dg (uf_bytes uf))"
  shows "case fst (fst (save_uploaded_file sf rk (hms ck) (ymd ck) uf
                 (add_log (hms ck) (''Processing new document: '' @ uf_name uf) ''INFO''
                   (clear_logs w)))) of
           None \<Rightarrow>
             build_calls (process_query_with_document dg sf rk bo qo fs ck ui uf w) = build_calls w \<and>
             current_doc_hash (process_query_with_document dg sf rk bo qo fs ck ui uf w) =
               current_doc_hash w
         | Some p \<Rightarrow>
             build_calls (process_query_with_document dg sf rk bo qo fs ck ui uf w) =
               build_calls w @ [p] \<and>
             current_doc_hash (process_query_with_document dg sf rk bo qo fs ck ui uf w) =
               Some (get_file_hash dg (uf_bytes uf))"
proof -
  let ?w1 = "add_log (hms ck) (''Processing new document: '' @ uf_name uf) ''INFO'' (clear_logs w)"
  obtain r u w2 where s: "save_uploaded_file sf rk (hms ck) (ymd ck) uf ?w1 = ((r, u), w2)"
    by (metis prod.exhaust)
  have fr: "build_calls w2 = build_calls w" "current_doc_hash w2 = current_doc_hash w"
    using save_uploaded_file_frame(1,3)[of sf rk "hms ck" "ymd ck" uf ?w1] s
    by (simp_all add: add_log_frame clear_logs_def)
  show ?thesis
  proof (cases r)
    case None
    with s fr assms show ?thesis
      by (simp add: process_query_with_document_def Let_def)
  next
    case (Some p)
    with s save_uploaded_file_path[of sf rk "hms ck" "ymd ck" uf ?w1 p] have "p \<noteq> []" by simp
    with Some s fr assms show ?thesis
      by (simp add: process_query_with_document_def Let_def create_vector_db_from_document_def
          process_query_frame add_log_frame
          split: build_result.splits option.splits)
  qed
qed

text \<open>
  C3, as the specification has it: an upload whose fingerprint differs from the stored
  one (or meets none) triggers a fresh index build, so that two turns with the same
  bytes build once. The build is behind a guard the claim leaves out: when
  \<^verbatim>\<open>save_uploaded_file\<close> returns no path the turn ends before the build, and the
  fingerprint is not stored. With a disk that refuses the file, the first upload of
  \<^verbatim>\<open>report.pdf\<close> triggers no build, nor does the same upload on the next day.
\<close>

theorem build_not_triggered_counterexample:
  "current_document w_empty = None \<and>
   current_doc_hash w_empty \<noteq> Some (get_file_hash digest0 (uf_bytes report_pdf)) \<and>
   build_calls (process_query_with_document digest0
       (OpenRaises ''[Errno 28] No space left on device'') rk_created bo_ok qo_ok {} ck0
       ''What is the total?'' report_pdf w_empty) = [] \<and>
   build_calls (process_query_with_document digest0
       (OpenRaises ''[Errno 28] No space left on device'') rk_created bo_ok qo_ok {} ck1
       ''What is the total?'' report_pdf
       (process_query_with_document digest0
         (OpenRaises ''[Errno 28] No space left on device'') rk_created bo_ok qo_ok {} ck0
         ''What is the total?'' report_pdf w_empty)) = []"
  by (simp add: run_defs)

text \<open>
  C3, amended: for every turn with an uploaded file, if the fingerprint of the bytes
  equals the stored one, no build is triggered and the index stays the one in place; if
  it differs (or none is stored) and the upload is saved, which it is when nothing
  fails on the disk, exactly one build is triggered, on the saved path, and any later
  turn that uploads the same bytes triggers none, so that the two turns build once; if
  the upload cannot be saved, no build is triggered and the stored fingerprint stays.
\<close>

theorem process_query_with_document_builds:
  "(current_doc_hash w = Some (get_file_hash dg (uf_bytes uf)) \<longrightarrow>
      build_calls (process_query_with_document dg sf rk bo qo fs ck ui uf w) = build_calls w \<and>
      vector_db (process_query_with_document dg sf rk bo qo fs ck ui uf w) = vector_db w) \<and>
   (current_doc_hash w \<noteq> Some (get_file_hash dg (uf_bytes uf)) \<longrightarrow>
      (case fst (fst (save_uploaded_file sf rk (hms ck) (ymd ck) uf
                 (add_log (hms ck) (''Processing new document: '' @ uf_name uf) ''INFO''
                   (clear_logs w)))) of
           None \<Rightarrow>
             build_calls (process_query_with_document dg sf rk bo qo fs ck ui uf w) = build_calls w \<and>
             current_doc_hash (process_query_with_document dg sf rk bo qo fs ck ui uf w) =
               current_doc_hash w
         | Some p \<Rightarrow>
             build_calls (process_query_with_document dg sf rk bo qo fs ck ui uf w) =
               build_calls w @ [p] \<and>
             (\<forall>uf2. uf_bytes uf2 = uf_bytes uf \<longrightarrow>
                build_calls (process_query_with_document dg sf2 rk2 bo2 qo2 fs2 ck2 ui2 uf2
                  (process_query_with_document dg sf rk bo qo fs ck ui uf w)) =
                build_calls w @ [p]))) \<and>
   (sf = SaveOk \<longrightarrow>
      fst (fst (save_uploaded_file sf rk (hms ck) (ymd ck) uf
                 (add_log (hms ck) (''Processing new document: '' @ uf_name uf) ''INFO''
                   (clear_logs w)))) \<noteq> None)"
proof (intro conjI impI)
  assume "current_doc_hash w = Some (get_file_hash dg (uf_bytes uf))"
  then show "build_calls (process_query_with_document dg sf rk bo qo fs ck ui uf w) = build_calls w"
    and "vector_db (process_query_with_document dg sf rk bo qo fs ck ui uf w) = vector_db w"
    by (rule same_hash_no_build)+
next
  assume n: "current_doc_hash w \<noteq> Some (get_file_hash dg (uf_bytes uf))"
  let ?w' = "process_query_with_document dg sf rk bo qo fs ck ui uf w"
  show "case fst (fst (save_uploaded_file sf rk (hms ck) (ymd ck) uf
                 (add_log (hms ck) (''Processing new document: '' @ uf_name uf) ''INFO''
                   (clear_logs w)))) of
           None \<Rightarrow> build_calls ?w' = build_calls w \<and> current_doc_hash ?w' = current_doc_hash w
         | Some p \<Rightarrow>
             build_calls ?w' = build_calls w @ [p] \<and>
             (\<forall>uf2. uf_bytes uf2 = uf_bytes uf \<longrightarrow>
                build_calls (process_query_with_document dg sf2 rk2 bo2 qo2 fs2 ck2 ui2 uf2 ?w') =
                build_calls w @ [p])"
  proof (cases "fst (fst (save_uploaded_file sf rk (hms ck) (ymd ck) uf
                 (add_log (hms ck) (''Processing new document: '' @ uf_name uf) ''INFO''
                   (clear_logs w))))")
    case None
    with new_hash_build[OF n, where sf = sf and rk = rk and ck = ck and bo = bo and qo = qo
        and fs = fs and ui = ui]
    show ?thesis by simp
  next
    case (Some p)
    with new_hash_build[OF n, where sf = sf and rk = rk and ck = ck and bo = bo and qo = qo
        and fs = fs and ui = ui]
    have b: "build_calls ?w' = build_calls w @ [p]"
      and h: "current_doc_hash ?w' = Some (get_file_hash dg (uf_bytes uf))"
      by simp_all
    have "build_calls (process_query_with_document dg sf2 rk2 bo2 qo2 fs2 ck2 ui2 uf2 ?w') =
        build_calls w @ [p]" if "uf_bytes uf2 = uf_bytes uf" for uf2
      using same_hash_no_build(1)[where w = ?w' and dg = dg and uf = uf2] h b that by simp
    with b Some show ?thesis by simp
  qed
next
  assume "sf = SaveOk"
  then show "fst (fst (save_uploaded_file sf rk (hms ck) (ymd ck) uf
                 (add_log (hms ck) (''Processing new document: '' @ uf_name uf) ''INFO''
                   (clear_logs w)))) \<noteq> None"
    by (simp add: save_uploaded_file_ok)
qed

theorem process_query_with_document_builds_witness:
  "current_doc_hash w_empty = None \<and>
   build_calls w_report = [''./processed_docs/report_20240101.pdf''] \<and>
   current_doc_hash w_report = Some (get_file_hash digest0 (uf_bytes report_pdf)) \<and>
   build_calls (process_query_with_document digest0 SaveOk rk_created bo_ok qo_ok {} ck1
       ''And the mean?'' report_pdf w_report) = [''./processed_docs/report_20240101.pdf''] \<and>
   vector_db (process_query_with_document digest0 SaveOk rk_created bo_ok qo_ok {} ck1
       ''And the mean?'' report_pdf w_report) = vector_db w_report"
proof -
  have h: "current_doc_hash w_empty \<noteq> Some (get_file_hash digest0 (uf_bytes report_pdf))"
    by (simp add: w_empty_def)
  have s: "fst (fst (save_uploaded_file SaveOk rk_created (hms ck0) (ymd ck0) report_pdf
                 (add_log (hms ck0) (''Processing new document: '' @ uf_name report_pdf) ''INFO''
                   (clear_logs w_empty)))) = Some ''./processed_docs/report_20240101.pdf''"
    by (simp add: run_defs)
  have e: "current_doc_hash w_report = Some (get_file_hash digest0 (uf_bytes report_pdf))"
    by (simp add: w_report_eq report_pdf_def get_file_hash_def digest0_def)
  note t1 = process_query_with_document_builds[where w = w_empty and dg = digest0
      and uf = report_pdf and sf = SaveOk and rk = rk_created and bo = bo_ok and qo = qo_ok and fs = "{}"
      and ck = ck0 and ui = "''What is the total?''" and ?sf2.0 = SaveOk and ?rk2.0 = rk_created and ?bo2.0 = bo_ok
      and ?qo2.0 = qo_ok and ?fs2.0 = "{}" and ?ck2.0 = ck1 and ?ui2.0 = "''And the mean?''"]
  from t1 h s have "\<forall>uf2. uf_bytes uf2 = uf_bytes report_pdf \<longrightarrow>
      build_calls (process_query_with_document digest0 SaveOk rk_created bo_ok qo_ok {} ck1
        ''And the mean?'' uf2 w_report) =
      build_calls w_empty @ [''./processed_docs/report_20240101.pdf'']"
    unfolding w_report_def by simp
  then have b: "build_calls (process_query_with_document digest0 SaveOk rk_created bo_ok qo_ok {} ck1
        ''And the mean?'' report_pdf w_report) = [''./processed_docs/report_20240101.pdf'']"
    by (simp add: w_empty_def)
  note t2 = process_query_with_document_builds[where w = w_report and dg = digest0
      and uf = report_pdf and sf = SaveOk and rk = rk_created and bo = bo_ok and qo = qo_ok and fs = "{}"
      and ck = ck1 and ui = "''And the mean?''"]
  from t2 e have v: "vector_db (process_query_with_document digest0 SaveOk rk_created bo_ok qo_ok {} ck1
       ''And the mean?'' report_pdf w_report) = vector_db w_report"
    by simp
  from b v e show ?thesis
    by (simp add: w_report_eq w_empty_def)
qed

section \<open>The stored document of a session (C4)\<close>

lemma get_chat_metadata_absent:
  "cid \<notin> s_id ` set (chat_sessions d) \<Longrightarrow> get_chat_metadata fs cid d = None"
  by (simp add: get_chat_metadata_def find_no_row)

lemma find_row:
  "cid \<in> s_id ` set xs \<Longrightarrow>
     \<exists>row \<in> set xs. s_id row = cid \<and> find (\<lambda>s. s_id s = cid) xs = Some row"
  by (induction xs) auto

lemma get_chat_metadata_row:
  assumes "cid \<in> s_id ` set (chat_sessions d)"
  shows "\<exists>row \<in> set (chat_sessions d). s_id row = cid \<and>
           get_chat_metadata {} cid d =
             Some \<lparr>path = s_document_path row, unique_name = s_document_unique_name row,
                   name = s_document_display_name row\<rparr>"
proof -
  from find_row[OF assms] obtain row where "row \<in> set (chat_sessions d)" "s_id row = cid"
    "find (\<lambda>s. s_id s = cid) (chat_sessions d) = Some row"
    by blast
  then show ?thesis by (auto simp add: get_chat_metadata_def)
qed

lemma get_chat_metadata_update:
  "cid \<in> s_id ` set (chat_sessions d) \<Longrightarrow>
     get_chat_metadata {} cid (update_session_doc doc cid d) = Some doc"
proof -
  have "n \<in> s_id ` set xs \<Longrightarrow>
      \<exists>row. find (\<lambda>s. s_id s = n)
               (map (\<lambda>s. if s_id s = n
                   then s\<lparr>s_document_path := path doc,
                          s_document_unique_name := unique_name doc,
                          s_document_display_name := name doc\<rparr>
                   else s) xs) = Some row \<and>
        s_document_path row = path doc \<and> s_document_unique_name row = unique_name doc \<and>
        s_document_display_name row = name doc" for n and xs :: "session_row list"
    by (induction xs) auto
  then show "cid \<in> s_id ` set (chat_sessions d) \<Longrightarrow> ?thesis"
    by (fastforce simp add: get_chat_metadata_def update_session_doc_def)
qed

lemma append_stores_document:
  assumes "current_document w = Some doc" and "fs \<inter> {0, 1, 2, 3, 4, 5, 6} = {}"
    and "session_known w"
  shows "\<exists>n. chat_id (add_to_chat_history fs ts created q a rt dn w) = Some n \<and>
        get_chat_metadata {} n (db (add_to_chat_history fs ts created q a rt dn w)) = Some doc"
proof -
  from assms(2) have nf: "0 \<notin> fs" "1 \<notin> fs" "2 \<notin> fs" "3 \<notin> fs" "4 \<notin> fs" "5 \<notin> fs" "6 \<notin> fs"
    by auto
  let ?e = "\<lparr>timestamp = ts, question = q, answer = a, response_time = rt, document = dn\<rparr>"
  show ?thesis
  proof (cases "chat_id w")
    case (Some n)
    with assms(3) have "n \<in> s_id ` set (chat_sessions (insert_message n ?e (db w)))"
      by (simp add: session_known_def)
    from get_chat_metadata_update[OF this, of doc] Some assms(1) nf show ?thesis
      by (simp add: add_to_chat_history_def persist_session_def persist_message_def Let_def)
  next
    case None
    obtain n d1 where i: "insert_session created (db w) = (n, d1)" by force
    then have "n \<in> s_id ` set (chat_sessions (insert_message n ?e d1))"
      by (auto simp add: insert_session_def Let_def)
    from get_chat_metadata_update[OF this, of doc] None assms(1) nf i show ?thesis
      by (simp add: add_to_chat_history_def persist_session_def persist_message_def Let_def)
  qed
qed

lemma session_known_cong:
  "chat_id w' = chat_id w \<Longrightarrow> db w' = db w \<Longrightarrow> session_known w' = session_known w"
  by (simp add: session_known_def split: option.splits)

lemma save_uploaded_file_keeps_store:
  "chat_id (snd (save_uploaded_file sf rk t y uf w)) = chat_id w"
  "db (snd (save_uploaded_file sf rk t y uf w)) = db w"
  by (simp_all add: save_uploaded_file_def save_failed_def add_log_frame Let_def
      split: save_fault.splits option.splits)

lemma process_query_stores_document:
  assumes "q_result qo = Answered r rt" and "current_document w = Some doc"
    and "fs \<inter> {0, 1, 2, 3, 4, 5, 6} = {}" and "session_known w"
  shows "\<exists>n. chat_id (process_query fs ck qo ui w) = Some n \<and>
        get_chat_metadata {} n (db (process_query fs ck qo ui w)) = Some doc"
proof -
  let ?w = "w\<lparr>process_logs := process_logs w @ q_logs qo, last_response := Some r\<rparr>"
  have "current_document ?w = Some doc" using assms(2) by simp
  moreover have "session_known ?w"
    using assms(4) session_known_cong[of ?w w] by simp
  ultimately have "\<exists>n. chat_id (add_to_chat_history fs (now ck) (now ck) ui r rt (name doc) ?w) =
        Some n \<and>
      get_chat_metadata {} n (db (add_to_chat_history fs (now ck) (now ck) ui r rt (name doc) ?w)) =
        Some doc"
    using assms(3) by (intro append_stores_document)
  with assms(1,2) show ?thesis
    by (simp add: process_query_def Let_def)
qed

lemma new_document_turn:
  assumes n: "current_doc_hash w \<noteq> Some (get_file_hash dg (uf_bytes uf))"
    and s: "fst (save_uploaded_file sf rk (hms ck) (ymd ck) uf
              (add_log (hms ck) (''Processing new document: '' @ uf_name uf) ''INFO''
                 (clear_logs w))) = (Some p, u)"
    and b: "b_result bo = BuildReturns (Some vdb)"
    and q: "q_result qo = Answered r rt"
    and f: "fs \<inter> {0, 1, 2, 3, 4, 5, 6} = {}"
    and k: "session_known w"
  shows "\<exists>n. chat_id (process_query_with_document dg sf rk bo qo fs ck ui uf w) = Some n \<and>
      get_chat_metadata {} n (db (process_query_with_document dg sf rk bo qo fs ck ui uf w)) =
        Some \<lparr>path = Some p, unique_name = u, name = Some (uf_name uf)\<rparr> \<and>
      current_doc_hash (process_query_with_document dg sf rk bo qo fs ck ui uf w) =
        Some (get_file_hash dg (uf_bytes uf))"
proof -
  let ?w1 = "add_log (hms ck) (''Processing new document: '' @ uf_name uf) ''INFO'' (clear_logs w)"
  let ?doc = "\<lparr>path = Some p, unique_name = u, name = Some (uf_name uf)\<rparr>"
  let ?h = "get_file_hash dg (uf_bytes uf)"
  obtain w2 where s2: "save_uploaded_file sf rk (hms ck) (ymd ck) uf ?w1 = ((Some p, u), w2)"
    using s by (metis prod.collapse)
  from s save_uploaded_file_path[of sf rk "hms ck" "ymd ck" uf ?w1 p] have p: "p \<noteq> []" by simp
  let ?w5 = "w2\<lparr>current_document := Some ?doc, current_doc_hash := Some ?h,
              process_logs := process_logs w2 @ b_logs bo,
              build_calls := build_calls w2 @ [p],
              vector_db := Some vdb, document_processed := True\<rparr>"
  have eq: "process_query_with_document dg sf rk bo qo fs ck ui uf w =
      process_query fs ck qo ui ?w5"
    using n s2 p b
    by (simp add: process_query_with_document_def create_vector_db_from_document_def Let_def)
  have "chat_id w2 = chat_id w" "db w2 = db w"
    using save_uploaded_file_keeps_store[of sf rk "hms ck" "ymd ck" uf ?w1] s2
    by (simp_all add: add_log_frame clear_logs_def)
  then have "session_known ?w5 = session_known w"
    by (intro session_known_cong) simp_all
  with k have k5: "session_known ?w5" by simp
  have d5: "current_document ?w5 = Some ?doc" by simp
  from process_query_stores_document[OF q d5 f k5, of ck ui]
  obtain m where "chat_id (process_query fs ck qo ui ?w5) = Some m"
    "get_chat_metadata {} m (db (process_query fs ck qo ui ?w5)) = Some ?doc"
    by blast
  moreover have "current_doc_hash (process_query fs ck qo ui ?w5) = Some ?h"
    by (simp add: process_query_frame)
  ultimately show ?thesis
    unfolding eq by blast
qed

text \<open>
  C4, as the specification has it: the middle field of the record
  \<^verbatim>\<open>get_chat_metadata\<close> returns is the content-derived fingerprint. It is not: the
  column \<^verbatim>\<open>document_unique_name\<close> holds \<^verbatim>\<open>current_document['unique_name']\<close>, the file
  name \<^verbatim>\<open>save_uploaded_file\<close> returned. The same bytes uploaded as \<^verbatim>\<open>report.pdf\<close> and
  as \<^verbatim>\<open>summary.pdf\<close> have one fingerprint (\<^verbatim>\<open>current_doc_hash\<close>, kept in the session
  state only) and two different stored values.
\<close>

theorem unique_name_not_fingerprint_counterexample:
  "uf_bytes report_pdf = uf_bytes summary_pdf \<and>
   current_doc_hash w_report = current_doc_hash w_summary \<and>
   chat_id w_report = Some 1 \<and> chat_id w_summary = Some 1 \<and>
   map_option unique_name (get_chat_metadata {} 1 (db w_report)) =
     Some (Some ''report_20240101.pdf'') \<and>
   map_option unique_name (get_chat_metadata {} 1 (db w_summary)) =
     Some (Some ''summary_20240101.pdf'') \<and>
   map_option unique_name (get_chat_metadata {} 1 (db w_report)) \<noteq>
     Some (current_doc_hash w_report)"
  by (simp add: w_report_eq w_summary_eq report_pdf_def summary_pdf_def get_chat_metadata_def)

text \<open>
  C4, amended, in four parts. For every session id, \<^verbatim>\<open>get_chat_metadata\<close> is absent
  when no session row has the id; and when one has, and the read does not fail, it is
  the record of the three document columns of that row. After an append that meets no
  failure of the store, made while a document is current and while the current chat id
  is unset or names a stored session row, the record of the append's session is the
  record of the current document: its path, its unique name and its display name. And
  after a turn that uploads a document whose fingerprint differs from the stored one,
  in which the save step returns a path and a file name, the build returns an index,
  the model answers and the store meets no failure (the chat id being unset or naming a
  stored session row), the record of the turn's session holds that path, that file
  name as its unique name (the name the save step wrote, or the name of the stored file
  it reused) and the upload's name as its display name, while the fingerprint of the
  upload is what the session state keeps as the stored fingerprint.
\<close>

theorem get_chat_metadata_after_append:
  "(cid \<notin> s_id ` set (chat_sessions d) \<longrightarrow> get_chat_metadata fs' cid d = None) \<and>
   (cid \<in> s_id ` set (chat_sessions d) \<longrightarrow>
      (\<exists>row \<in> set (chat_sessions d). s_id row = cid \<and>
         get_chat_metadata {} cid d =
           Some \<lparr>path = s_document_path row, unique_name = s_document_unique_name row,
                 name = s_document_display_name row\<rparr>)) \<and>
   (current_document w = Some doc \<and> fs \<inter> {0, 1, 2, 3, 4, 5, 6} = {} \<and> session_known w \<longrightarrow>
      (\<exists>n. chat_id (add_to_chat_history fs ts created q a rt dn w) = Some n \<and>
        get_chat_metadata {} n (db (add_to_chat_history fs ts created q a rt dn w)) =
          Some doc)) \<and>
   (current_doc_hash w \<noteq> Some (get_file_hash dg (uf_bytes uf)) \<and>
    fst (save_uploaded_file sf rk (hms ck) (ymd ck) uf
          (add_log (hms ck) (''Processing new document: '' @ uf_name uf) ''INFO''
             (clear_logs w))) = (Some p, u) \<and>
    b_result bo = BuildReturns (Some vdb) \<and> q_result qo = Answered r rt2 \<and>
    fs \<inter> {0, 1, 2, 3, 4, 5, 6} = {} \<and> session_known w \<longrightarrow>
      (\<exists>n. chat_id (process_query_with_document dg sf rk bo qo fs ck ui uf w) = Some n \<and>
        get_chat_metadata {} n
            (db (process_query_with_document dg sf rk bo qo fs ck ui uf w)) =
          Some \<lparr>path = Some p, unique_name = u, name = Some (uf_name uf)\<rparr> \<and>
        current_doc_hash (process_query_with_document dg sf rk bo qo fs ck ui uf w) =
          Some (get_file_hash dg (uf_bytes uf))))"
proof (intro conjI impI)
  assume "cid \<notin> s_id ` set (chat_sessions d)"
  then show "get_chat_metadata fs' cid d = None" by (rule get_chat_metadata_absent)
next
  assume "cid \<in> s_id ` set (chat_sessions d)"
  then show "\<exists>row \<in> set (chat_sessions d). s_id row = cid \<and>
         get_chat_metadata {} cid d =
           Some \<lparr>path = s_document_path row, unique_name = s_document_unique_name row,
                 name = s_document_display_name row\<rparr>"
    by (rule get_chat_metadata_row)
next
  assume "current_document w = Some doc \<and> fs \<inter> {0, 1, 2, 3, 4, 5, 6} = {} \<and> session_known w"
  then show "\<exists>n. chat_id (add_to_chat_history fs ts created q a rt dn w) = Some n \<and>
        get_chat_metadata {} n (db (add_to_chat_history fs ts created q a rt dn w)) = Some doc"
    by (intro append_stores_document) simp_all
next
  assume "current_doc_hash w \<noteq> Some (get_file_hash dg (uf_bytes uf)) \<and>
    fst (save_uploaded_file sf rk (hms ck) (ymd ck) uf
          (add_log (hms ck) (''Processing new document: '' @ uf_name uf) ''INFO''
             (clear_logs w))) = (Some p, u) \<and>
    b_result bo = BuildReturns (Some vdb) \<and> q_result qo = Answered r rt2 \<and>
    fs \<inter> {0, 1, 2, 3, 4, 5, 6} = {} \<and> session_known w"
  then show "\<exists>n. chat_id (process_query_with_document dg sf rk bo qo fs ck ui uf w) = Some n \<and>
        get_chat_metadata {} n
            (db (process_query_with_document dg sf rk bo qo fs ck ui uf w)) =
          Some \<lparr>path = Some p, unique_name = u, name = Some (uf_name uf)\<rparr> \<and>
        current_doc_hash (process_query_with_document dg sf rk bo qo fs ck ui uf w) =
          Some (get_file_hash dg (uf_bytes uf))"
    by (intro new_document_turn[where vdb = vdb and r = r and rt = rt2]) simp_all
qed

theorem get_chat_metadata_after_append_witness:
  "get_chat_metadata {} 5 (db w_new_chat) = None \<and>
   get_chat_metadata {} 1 (db w_new_chat) =
     Some \<lparr>path = Some ''./processed_docs/report_20240101.pdf'',
           unique_name = Some ''report_20240101.pdf'', name = Some ''report.pdf''\<rparr> \<and>
   get_chat_metadata {} 2 (db w_new_chat) =
     Some \<lparr>path = None, unique_name = None, name = None\<rparr> \<and>
   chat_id (add_to_chat_history {} ''2024-01-01 10:06:00'' ''2024-01-01 10:06:01''
       ''And the mean?'' ''7'' 1 (Some ''report.pdf'') w_new_chat) = Some 2 \<and>
   get_chat_metadata {} 2 (db (add_to_chat_history {} ''2024-01-01 10:06:00''
       ''2024-01-01 10:06:01'' ''And the mean?'' ''7'' 1 (Some ''report.pdf'') w_new_chat)) =
     Some \<lparr>path = Some ''./processed_docs/report_20240101.pdf'',
           unique_name = Some ''report_20240101.pdf'', name = Some ''report.pdf''\<rparr> \<and>
   chat_id (process_query_with_document digest0 SaveOk rk_report_1_first bo_ok qo_ok {} ck_third
       ''What is the total?'' report_pdf_other w_two_reports) = Some 1 \<and>
   get_chat_metadata {} 1 (db (process_query_with_document digest0 SaveOk rk_report_1_first
       bo_ok qo_ok {} ck_third ''What is the total?'' report_pdf_other w_two_reports)) =
     Some \<lparr>path = Some ''./processed_docs/report_1_20240102.pdf'',
           unique_name = Some ''report_1_20240102.pdf'', name = Some ''report.pdf''\<rparr> \<and>
   current_doc_hash (process_query_with_document digest0 SaveOk rk_report_1_first
       bo_ok qo_ok {} ck_third ''What is the total?'' report_pdf_other w_two_reports) =
     Some (get_file_hash digest0 (uf_bytes report_pdf_other))"
proof -
  let ?doc = "\<lparr>path = Some ''./processed_docs/report_20240101.pdf'',
           unique_name = Some ''report_20240101.pdf'', name = Some ''report.pdf''\<rparr>"
  let ?w' = "add_to_chat_history {} ''2024-01-01 10:06:00''
       ''2024-01-01 10:06:01'' ''And the mean?'' ''7'' 1 (Some ''report.pdf'') w_new_chat"
  let ?t' = "process_query_with_document digest0 SaveOk rk_report_1_first bo_ok qo_ok {} ck_third
       ''What is the total?'' report_pdf_other w_two_reports"
  note t = get_chat_metadata_after_append[where d = "db w_new_chat" and fs' = "{}"
      and w = w_new_chat and doc = ?doc and fs = "{}" and ts = "''2024-01-01 10:06:00''"
      and created = "''2024-01-01 10:06:01''" and q = "''And the mean?''" and a = "''7''"
      and rt = 1 and dn = "Some ''report.pdf''"]
  note u = get_chat_metadata_after_append[where w = w_two_reports and fs = "{}"
      and dg = digest0 and uf = report_pdf_other and sf = SaveOk and rk = rk_report_1_first
      and ck = ck_third and bo = bo_ok and qo = qo_ok and ui = "''What is the total?''"
      and p = "''./processed_docs/report_1_20240102.pdf''"
      and u = "Some ''report_1_20240102.pdf''" and vdb = "VectorDb 1" and r = "''42''"
      and ?rt2.0 = "1 / 2"]
  have 1: "5 \<notin> s_id ` set (chat_sessions (db w_new_chat))"
    by (simp add: w_new_chat_eq)
  from t[where cid = 5, THEN conjunct1, THEN mp, OF 1]
  have a: "get_chat_metadata {} 5 (db w_new_chat) = None" .
  have 2: "1 \<in> s_id ` set (chat_sessions (db w_new_chat))"
    and 3: "2 \<in> s_id ` set (chat_sessions (db w_new_chat))"
    by (simp_all add: w_new_chat_eq)
  from t[where cid = 1, THEN conjunct2, THEN conjunct1, THEN mp, OF 2]
  have b1: "get_chat_metadata {} 1 (db w_new_chat) = Some ?doc"
    by (auto simp add: w_new_chat_eq)
  from t[where cid = 2, THEN conjunct2, THEN conjunct1, THEN mp, OF 3]
  have b2: "get_chat_metadata {} 2 (db w_new_chat) =
      Some \<lparr>path = None, unique_name = None, name = None\<rparr>"
    by (auto simp add: w_new_chat_eq)
  have 4: "current_document w_new_chat = Some ?doc \<and>
      ({} :: nat set) \<inter> {0, 1, 2, 3, 4, 5, 6} = {} \<and> session_known w_new_chat"
    by (simp add: w_new_chat_eq session_known_def)
  have 5: "chat_id ?w' = Some 2"
    by (simp add: w_new_chat_eq run_defs)
  from t[THEN conjunct2, THEN conjunct2, THEN conjunct1, THEN mp, OF 4] 5
  have c: "get_chat_metadata {} 2 (db ?w') = Some ?doc"
    by auto
  have 6: "current_doc_hash w_two_reports \<noteq>
        Some (get_file_hash digest0 (uf_bytes report_pdf_other)) \<and>
      fst (save_uploaded_file SaveOk rk_report_1_first (hms ck_third) (ymd ck_third) report_pdf_other
          (add_log (hms ck_third) (''Processing new document: '' @ uf_name report_pdf_other) ''INFO''
             (clear_logs w_two_reports))) =
        (Some ''./processed_docs/report_1_20240102.pdf'', Some ''report_1_20240102.pdf'') \<and>
      b_result bo_ok = BuildReturns (Some (VectorDb 1)) \<and> q_result qo_ok = Answered ''42'' (1 / 2) \<and>
      ({} :: nat set) \<inter> {0, 1, 2, 3, 4, 5, 6} = {} \<and> session_known w_two_reports"
    by (simp add: w_two_reports_eq session_known_def run_defs)
  have 7: "chat_id ?t' = Some 1"
    by (simp add: w_two_reports_eq run_defs)
  from u[THEN conjunct2, THEN conjunct2, THEN conjunct2, THEN mp, OF 6] 7
  have d: "get_chat_metadata {} 1 (db ?t') =
        Some \<lparr>path = Some ''./processed_docs/report_1_20240102.pdf'',
              unique_name = Some ''report_1_20240102.pdf'', name = Some ''report.pdf''\<rparr> \<and>
      current_doc_hash ?t' = Some (get_file_hash digest0 (uf_bytes report_pdf_other))"
    by (auto simp add: report_pdf_other_def)
  from a b1 b2 c 5 7 d show ?thesis by simp
qed

section \<open>The chat history in memory (C5)\<close>

text \<open>
  C5: every call of \<^verbatim>\<open>add_to_chat_history\<close> extends the chat history in memory by the
  new entry, whichever calls into the store raise; the function always returns a state
  (the handlers log and go on), so the turn completes with the entry in memory.
\<close>

theorem add_to_chat_history_extends_history:
  "chat_history (add_to_chat_history fs ts created q a rt doc_name w) =
     chat_history w @
       [\<lparr>timestamp = ts, question = q, answer = a, response_time = rt,
         document = doc_name\<rparr>]"
  by (simp add: add_to_chat_history_def persist_session_def persist_message_def Let_def
        split: option.splits prod.splits outcome.splits)


section \<open>Messages in the order of their appending (C6)\<close>

lemma get_chat_messages_insert:
  "get_chat_messages {} n (insert_message n e d) = get_chat_messages {} n d @ [e]"
proof -
  let ?new = "next_rowid (seq_chat_messages d) (map m_id (chat_messages d))"
  let ?row = "\<lparr>m_id = ?new, m_chat_id = n, m_timestamp = timestamp e,
                  m_question = question e, m_answer = answer e,
                  m_response_time = response_time e, m_document = document e\<rparr>"
  have "\<forall>y \<in> set (filter (\<lambda>m. m_chat_id m = n) (chat_messages d)). m_id y \<le> m_id ?row"
    using next_rowid_gt[of _ "map m_id (chat_messages d)" "seq_chat_messages d"]
    by (auto intro: less_imp_le)
  then have "sort_key m_id (filter (\<lambda>m. m_chat_id m = n) (chat_messages d) @ [?row]) =
      sort_key m_id (filter (\<lambda>m. m_chat_id m = n) (chat_messages d)) @ [?row]"
    by (rule sort_key_snoc)
  then show ?thesis
    by (simp add: get_chat_messages_def insert_message_def Let_def entry_of_row_def)
qed

lemma get_chat_messages_fresh:
  "\<not> (\<exists>m \<in> set (chat_messages d). m_chat_id m = n) \<Longrightarrow> get_chat_messages fs n d = []"
  by (auto simp add: get_chat_messages_def filter_empty_conv)

lemma append_step_Some:
  assumes "chat_id w = Some n"
  shows "chat_id (add_to_chat_history {} ts created q a rt dn w) = Some n \<and>
    get_chat_messages {} n (db (add_to_chat_history {} ts created q a rt dn w)) =
      get_chat_messages {} n (db w) @
      [\<lparr>timestamp = ts, question = q, answer = a, response_time = rt, document = dn\<rparr>]"
  using assms
  by (simp add: add_to_chat_history_def persist_session_def persist_message_def Let_def
      get_chat_messages_insert split: option.splits)

lemma append_step_None:
  assumes "chat_id w = None" and "fk_ok (db w)"
  shows "\<exists>n. chat_id (add_to_chat_history {} ts created q a rt dn w) = Some n \<and>
    get_chat_messages {} n (db (add_to_chat_history {} ts created q a rt dn w)) =
      [\<lparr>timestamp = ts, question = q, answer = a, response_time = rt, document = dn\<rparr>]"
proof -
  let ?new = "next_rowid (seq_chat_sessions (db w)) (map s_id (chat_sessions (db w)))"
  have "\<not> (\<exists>m \<in> set (chat_messages (db w)). m_chat_id m = ?new)"
  proof
    assume "\<exists>m \<in> set (chat_messages (db w)). m_chat_id m = ?new"
    then obtain m where m: "m \<in> set (chat_messages (db w))" "m_chat_id m = ?new" by blast
    from assms(2) m(1) have "m_chat_id m \<in> s_id ` set (chat_sessions (db w))"
      by (simp add: fk_ok_def)
    with m(2) next_rowid_fresh[of "seq_chat_sessions (db w)" "map s_id (chat_sessions (db w))"]
    show False by simp
  qed
  then have "get_chat_messages {} ?new (snd (insert_session created (db w))) = []"
    by (intro get_chat_messages_fresh) (simp add: insert_session_def Let_def)
  with assms(1) show ?thesis
    by (simp add: add_to_chat_history_def persist_session_def persist_message_def Let_def
      get_chat_messages_insert insert_session_def split: option.splits)
qed

lemma append_all_Some:
  "chat_id w = Some n \<Longrightarrow>
     chat_id (append_all calls w) = Some n \<and>
     get_chat_messages {} n (db (append_all calls w)) =
       get_chat_messages {} n (db w) @ map entry_of_call calls"
proof (induction calls arbitrary: w)
  case Nil
  then show ?case by simp
next
  case (Cons c cs)
  from append_step_Some[OF Cons.prems] Cons.IH show ?case
    by (simp add: entry_of_call_def)
qed

text \<open>
  C6: after any sequence of calls of \<^verbatim>\<open>add_to_chat_history\<close> on a fresh session, none
  of which meets a failure of the store, \<^verbatim>\<open>get_chat_messages\<close> for the session
  returns exactly the appended entries, in the order of the calls (which is the order
  of their ids), as many as there were calls. A non-empty sequence leaves a session id
  set.
\<close>

theorem get_chat_messages_append_order:
  assumes "fresh_session w"
  shows "(calls \<noteq> [] \<longrightarrow> chat_id (append_all calls w) \<noteq> None) \<and>
    (\<forall>n. chat_id (append_all calls w) = Some n \<longrightarrow>
       get_chat_messages {} n (db (append_all calls w)) = map entry_of_call calls \<and>
       length (get_chat_messages {} n (db (append_all calls w))) = length calls)"
proof (cases "chat_id w")
  case (Some n)
  with assms have "get_chat_messages {} n (db w) = []"
    by (intro get_chat_messages_fresh) (simp add: fresh_session_def)
  with append_all_Some[OF Some, of calls] show ?thesis by simp
next
  case None
  show ?thesis
  proof (cases calls)
    case Nil
    with None show ?thesis by simp
  next
    case (Cons c cs)
    from None assms have "fk_ok (db w)" by (simp add: fresh_session_def)
    from append_step_None[OF None this, of "ac_ts c" "ac_created c" "ac_question c" "ac_answer c"
        "ac_response_time c" "ac_doc_name c"]
    obtain n where n: "chat_id (add_to_chat_history {} (ac_ts c) (ac_created c) (ac_question c)
          (ac_answer c) (ac_response_time c) (ac_doc_name c) w) = Some n"
      "get_chat_messages {} n (db (add_to_chat_history {} (ac_ts c) (ac_created c) (ac_question c)
          (ac_answer c) (ac_response_time c) (ac_doc_name c) w)) = [entry_of_call c]"
      by (auto simp add: entry_of_call_def)
    from append_all_Some[OF n(1), of cs] n(2) Cons show ?thesis by simp
  qed
qed

theorem get_chat_messages_append_order_witness:
  "fresh_session w_empty \<and>
   chat_id (append_all two_calls w_empty) = Some 1 \<and>
   get_chat_messages {} 1 (db (append_all two_calls w_empty)) =
     [\<lparr>timestamp = ''2024-01-01 10:00:00'', question = ''first'', answer = ''one'',
       response_time = 1, document = Some ''report.pdf''\<rparr>,
      \<lparr>timestamp = ''2024-01-01 10:02:00'', question = ''second'', answer = ''two'',
       response_time = 2, document = Some ''report.pdf''\<rparr>] \<and>
   length (get_chat_messages {} 1 (db (append_all two_calls w_empty))) = 2"
proof -
  have f: "fresh_session w_empty"
    by (simp add: fresh_session_def fk_ok_def w_empty_def)
  have c: "chat_id (append_all two_calls w_empty) = Some 1"
    by (simp add: two_calls_def run_defs)
  from get_chat_messages_append_order[OF f, of two_calls] c f show ?thesis
    by (simp add: two_calls_def entry_of_call_def)
qed

section \<open>Reusing a stored file (C7)\<close>

text \<open>
  When the directory can be listed, the scan returns the first listed name that starts
  with the upload's stem and an underscore, and nothing is written, whatever the
  uploaded bytes are.
\<close>

lemma save_reuses:
  assumes "listing rk w = pre @ f # post"
    and "prefix (path_stem (uf_name uf) @ ''_'') f"
    and "\<forall>g \<in> set pre. \<not> prefix (path_stem (uf_name uf) @ ''_'') g"
    and "\<forall>msg. sf \<noteq> ListdirRaises msg"
  shows "save_uploaded_file sf rk t y uf w =
           ((Some (join_upload f), Some f),
            add_log t (''SAME Document found in memory: '' @ f) ''INFO'' w)"
  using assms find_first[of "prefix (path_stem (uf_name uf) @ ''_'')" f pre post]
  by (simp add: save_uploaded_file_def Let_def split: save_fault.splits)

text \<open>
  C7: when the upload's base name matches the name of a stored file with its date
  stamp left out, the path and name of that file are returned, nothing is written and
  no content is compared. The scan tests something wider than its comment ("a file
  with the same original name") says: \<^verbatim>\<open>current_file.startswith(stem + "_")\<close>, and
  returns at the first listed name that passes. After \<^verbatim>\<open>report.pdf\<close> was saved on
  2024-01-01 and \<^verbatim>\<open>report_1.pdf\<close> on 2024-01-02, the directory holds
  \<^verbatim>\<open>report_20240101.pdf\<close> and \<^verbatim>\<open>report_1_20240102.pdf\<close>. When the listing puts the
  second first, another file named \<^verbatim>\<open>report.pdf\<close> is given the stored file of
  \<^verbatim>\<open>report_1.pdf\<close>, though the file stored for \<^verbatim>\<open>report.pdf\<close> is there; when the
  listing has the order of creation, it is given the stored file of \<^verbatim>\<open>report.pdf\<close>.
\<close>

theorem save_uploaded_file_prefix_overmatch:
  "upload_dir w_two_reports =
     Some [(''report_20240101.pdf'', [1, 2, 3]), (''report_1_20240102.pdf'', [7, 7])] \<and>
   ''report_20240101.pdf'' =
     path_stem (uf_name report_pdf_other) @ ''_'' @ ''20240101'' @
       path_suffix (uf_name report_pdf_other) \<and>
   listing rk_report_1_first w_two_reports =
     [''report_1_20240102.pdf'', ''report_20240101.pdf''] \<and>
   save_uploaded_file SaveOk rk_report_1_first ''09:00:00'' ''20240103'' report_pdf_other
       w_two_reports =
     ((Some ''./processed_docs/report_1_20240102.pdf'', Some ''report_1_20240102.pdf''),
      add_log ''09:00:00'' ''SAME Document found in memory: report_1_20240102.pdf'' ''INFO''
        w_two_reports) \<and>
   listing rk_created w_two_reports =
     [''report_20240101.pdf'', ''report_1_20240102.pdf''] \<and>
   fst (save_uploaded_file SaveOk rk_created ''09:00:00'' ''20240103'' report_pdf_other
       w_two_reports) =
     (Some ''./processed_docs/report_20240101.pdf'', Some ''report_20240101.pdf'')"
  by (simp add: w_two_reports_eq run_defs)

section \<open>Listing the sessions (C8)\<close>

lemma ids_get_chat_sessions:
  "map ss_id (get_chat_sessions {} d) = rev (sort (map s_id (chat_sessions d)))"
  by (simp add: get_chat_sessions_def rev_map[symmetric] map_sort_key o_def)

lemma last_answer_of_None:
  "last_answer_of d sid = None \<longleftrightarrow> \<not> (\<exists>m \<in> set (chat_messages d). m_chat_id m = sid)"
proof -
  have "last_answer_of d sid = None \<longleftrightarrow>
      sort_key m_id (filter (\<lambda>m. m_chat_id m = sid) (chat_messages d)) = []"
    by (simp add: last_answer_of_def split: list.splits)
  also have "\<dots> \<longleftrightarrow> set (filter (\<lambda>m. m_chat_id m = sid) (chat_messages d)) = {}"
    by (metis set_sort set_empty)
  finally show ?thesis by auto
qed

lemma last_answer_of_Some:
  assumes "last_answer_of d sid = Some a"
  shows "\<exists>m \<in> set (chat_messages d). m_chat_id m = sid \<and> m_answer m = a \<and>
           (\<forall>m' \<in> set (chat_messages d). m_chat_id m' = sid \<longrightarrow> m_id m' \<le> m_id m)"
proof -
  let ?ms = "filter (\<lambda>m. m_chat_id m = sid) (chat_messages d)"
  from assms obtain m rest where r: "rev (sort_key m_id ?ms) = m # rest" and a: "m_answer m = a"
    by (auto simp add: last_answer_of_def split: list.splits)
  then have s: "sort_key m_id ?ms = rev rest @ [m]"
    by (metis rev_rev_ident rev.simps(2))
  have "m \<in> set (sort_key m_id ?ms)" by (simp add: s)
  then have mem: "m \<in> set (chat_messages d)" "m_chat_id m = sid" by auto
  have "sorted (map m_id (sort_key m_id ?ms))" by (rule sorted_sort_key)
  then have "\<forall>x \<in> set (rev rest). m_id x \<le> m_id m"
    by (simp add: s sorted_append)
  moreover have "set ?ms = set (rev rest) \<union> {m}"
    by (metis s set_sort set_append list.set(1) list.set(2))
  ultimately have "\<forall>m' \<in> set ?ms. m_id m' \<le> m_id m" by auto
  with mem a show ?thesis by auto
qed

lemma last_answer_get_chat_sessions:
  "e \<in> set (get_chat_sessions {} d) \<Longrightarrow> last_answer e = last_answer_of d (ss_id e)"
  by (auto simp add: get_chat_sessions_def)

lemma last_answer_of_insert_session [simp]:
  "last_answer_of (snd (insert_session created d)) sid = last_answer_of d sid"
  by (simp add: last_answer_of_def insert_session_def Let_def)

lemma get_chat_sessions_insert:
  "map ss_id (get_chat_sessions {} (snd (insert_session created d))) =
     fst (insert_session created d) # map ss_id (get_chat_sessions {} d)"
proof -
  let ?new = "next_rowid (seq_chat_sessions d) (map s_id (chat_sessions d))"
  let ?row = "\<lparr>s_id = ?new, s_created_at = created, s_document_path = None,
                  s_document_unique_name = None, s_document_display_name = None\<rparr>"
  have "\<forall>y \<in> set (chat_sessions d). s_id y \<le> s_id ?row"
    using next_rowid_gt[of _ "map s_id (chat_sessions d)" "seq_chat_sessions d"]
    by (auto intro: less_imp_le)
  then have "sort_key s_id (chat_sessions d @ [?row]) = sort_key s_id (chat_sessions d) @ [?row]"
    by (rule sort_key_snoc)
  then show ?thesis
    by (simp add: get_chat_sessions_def insert_session_def Let_def o_def)
qed

lemma start_new_chat_session_listing:
  "map (Some \<circ> ss_id) (get_chat_sessions {} (db (snd (start_new_chat_session {} created w)))) =
     fst (start_new_chat_session {} created w) # map (Some \<circ> ss_id) (get_chat_sessions {} (db w))"
proof -
  obtain n d1 where i: "insert_session created (db w) = (n, d1)" by force
  from get_chat_sessions_insert[of created "db w"] i
  have "map ss_id (get_chat_sessions {} d1) = n # map ss_id (get_chat_sessions {} (db w))"
    by simp
  then have "map Some (map ss_id (get_chat_sessions {} d1)) =
      Some n # map Some (map ss_id (get_chat_sessions {} (db w)))"
    by simp
  with i show ?thesis
    by (simp add: start_new_chat_session_def Let_def)
qed

text \<open>
  C8: for every state of the store, \<^verbatim>\<open>get_chat_sessions\<close> (its query not raising)
  lists every session once, by descending id; the last answer of an entry is absent
  exactly when the session has no message, and is otherwise the answer of the
  session's message with the highest id; and three sessions created one after the
  other through \<^verbatim>\<open>start_new_chat_session\<close> come third, second, first, ahead of all
  the sessions that were there.
\<close>

theorem get_chat_sessions_newest_first:
  "map ss_id (get_chat_sessions {} (db w)) = rev (sort (map s_id (chat_sessions (db w)))) \<and>
   (\<forall>e \<in> set (get_chat_sessions {} (db w)).
      case last_answer e of
        None \<Rightarrow> \<not> (\<exists>m \<in> set (chat_messages (db w)). m_chat_id m = ss_id e)
      | Some a \<Rightarrow>
          \<exists>m \<in> set (chat_messages (db w)). m_chat_id m = ss_id e \<and> m_answer m = a \<and>
            (\<forall>m' \<in> set (chat_messages (db w)). m_chat_id m' = ss_id e \<longrightarrow> m_id m' \<le> m_id m)) \<and>
   (case start_new_chat_session {} t1 w of (a, w1) \<Rightarrow>
    case start_new_chat_session {} t2 w1 of (b, w2) \<Rightarrow>
    case start_new_chat_session {} t3 w2 of (c, w3) \<Rightarrow>
      map (Some \<circ> ss_id) (get_chat_sessions {} (db w3)) =
        c # b # a # map (Some \<circ> ss_id) (get_chat_sessions {} (db w)))"
proof (intro conjI ballI)
  show "map ss_id (get_chat_sessions {} (db w)) = rev (sort (map s_id (chat_sessions (db w))))"
    by (rule ids_get_chat_sessions)
next
  fix e assume e: "e \<in> set (get_chat_sessions {} (db w))"
  show "case last_answer e of
        None \<Rightarrow> \<not> (\<exists>m \<in> set (chat_messages (db w)). m_chat_id m = ss_id e)
      | Some a \<Rightarrow>
          \<exists>m \<in> set (chat_messages (db w)). m_chat_id m = ss_id e \<and> m_answer m = a \<and>
            (\<forall>m' \<in> set (chat_messages (db w)). m_chat_id m' = ss_id e \<longrightarrow> m_id m' \<le> m_id m)"
  proof (cases "last_answer e")
    case None
    with last_answer_get_chat_sessions[OF e] last_answer_of_None[of "db w" "ss_id e"]
    show ?thesis by simp
  next
    case (Some a)
    with last_answer_get_chat_sessions[OF e] have "last_answer_of (db w) (ss_id e) = Some a"
      by simp
    from last_answer_of_Some[OF this] Some show ?thesis by simp
  qed
next
  obtain a w1 where 1: "start_new_chat_session {} t1 w = (a, w1)" by force
  obtain b w2 where 2: "start_new_chat_session {} t2 w1 = (b, w2)" by force
  obtain c w3 where 3: "start_new_chat_session {} t3 w2 = (c, w3)" by force
  from start_new_chat_session_listing[of t1 w] start_new_chat_session_listing[of t2 w1]
    start_new_chat_session_listing[of t3 w2] 1 2 3
  show "case start_new_chat_session {} t1 w of (a, w1) \<Rightarrow>
      case start_new_chat_session {} t2 w1 of (b, w2) \<Rightarrow>
      case start_new_chat_session {} t3 w2 of (c, w3) \<Rightarrow>
        map (Some \<circ> ss_id) (get_chat_sessions {} (db w3)) =
          c # b # a # map (Some \<circ> ss_id) (get_chat_sessions {} (db w))"
    by simp
qed

theorem get_chat_sessions_newest_first_witness:
  "map ss_id (get_chat_sessions {} (db w_new_chat)) = [2, 1] \<and>
   \<lparr>ss_id = 1, document_display_name = Some ''report.pdf'', last_answer = Some ''42''\<rparr>
     \<in> set (get_chat_sessions {} (db w_new_chat)) \<and>
   (\<exists>m \<in> set (chat_messages (db w_new_chat)). m_chat_id m = 1 \<and> m_answer m = ''42'' \<and>
      list_all (\<lambda>m'. m_chat_id m' = 1 \<longrightarrow> m_id m' \<le> m_id m) (chat_messages (db w_new_chat))) \<and>
   \<lparr>ss_id = 2, document_display_name = None, last_answer = None\<rparr>
     \<in> set (get_chat_sessions {} (db w_new_chat)) \<and>
   \<not> (\<exists>m \<in> set (chat_messages (db w_new_chat)). m_chat_id m = 2) \<and>
   map ss_id (get_chat_sessions {}
     (db (snd (start_new_chat_session {} ''2024-01-01 10:07:00''
       (snd (start_new_chat_session {} ''2024-01-01 10:06:00''
         (snd (start_new_chat_session {} ''2024-01-01 10:05:00'' w_report)))))))) = [4, 3, 2, 1]"
proof -
  let ?e1 = "\<lparr>ss_id = 1, document_display_name = Some ''report.pdf'', last_answer = Some ''42''\<rparr>"
  let ?e2 = "\<lparr>ss_id = 2, document_display_name = None, last_answer = None :: string option\<rparr>"
  note t = get_chat_sessions_newest_first[of w_new_chat]
  have m1: "?e1 \<in> set (get_chat_sessions {} (db w_new_chat))"
    and m2: "?e2 \<in> set (get_chat_sessions {} (db w_new_chat))"
    by (simp_all add: w_new_chat_eq get_chat_sessions_def last_answer_of_def)
  from t have ids: "map ss_id (get_chat_sessions {} (db w_new_chat)) =
      rev (sort (map s_id (chat_sessions (db w_new_chat))))"
    by (rule conjunct1)
  from t have la: "\<forall>e \<in> set (get_chat_sessions {} (db w_new_chat)).
      case last_answer e of
        None \<Rightarrow> \<not> (\<exists>m \<in> set (chat_messages (db w_new_chat)). m_chat_id m = ss_id e)
      | Some a \<Rightarrow>
          \<exists>m \<in> set (chat_messages (db w_new_chat)). m_chat_id m = ss_id e \<and> m_answer m = a \<and>
            (\<forall>m' \<in> set (chat_messages (db w_new_chat)).
                m_chat_id m' = ss_id e \<longrightarrow> m_id m' \<le> m_id m)"
    by (rule conjunct2[THEN conjunct1])
  from la m1 have a1: "\<exists>m \<in> set (chat_messages (db w_new_chat)). m_chat_id m = 1 \<and>
      m_answer m = ''42'' \<and>
      list_all (\<lambda>m'. m_chat_id m' = 1 \<longrightarrow> m_id m' \<le> m_id m) (chat_messages (db w_new_chat))"
    by (fastforce simp add: list_all_iff)
  from la m2 have a2: "\<not> (\<exists>m \<in> set (chat_messages (db w_new_chat)). m_chat_id m = 2)"
    by fastforce
  from get_chat_sessions_newest_first[of w_report "''2024-01-01 10:05:00''"
      "''2024-01-01 10:06:00''" "''2024-01-01 10:07:00''"]
  have abc: "map ss_id (get_chat_sessions {}
     (db (snd (start_new_chat_session {} ''2024-01-01 10:07:00''
       (snd (start_new_chat_session {} ''2024-01-01 10:06:00''
         (snd (start_new_chat_session {} ''2024-01-01 10:05:00'' w_report)))))))) = [4, 3, 2, 1]"
    by (simp add: w_report_eq run_defs split: prod.splits)
  from ids m1 m2 a1 a2 abc show ?thesis
    by (simp add: w_new_chat_eq)
qed

section \<open>A new chat keeps the document (C9)\<close>

text \<open>
  C9: from every state, \<^verbatim>\<open>start_new_chat_session\<close> empties the chat history and the
  process logs and leaves the current document, the index, the fingerprint and the log
  of builds as they were (no build is made); and when none of its three calls into the
  store raises, it appends one session row with a new id and no document, leaves the
  messages alone, and returns that id, which is also the current chat id.
\<close>

theorem start_new_chat_session_keeps_document:
  "(case start_new_chat_session fs created w of (r, w') \<Rightarrow>
      chat_history w' = [] \<and> process_logs w' = [] \<and>
      current_document w' = current_document w \<and> vector_db w' = vector_db w \<and>
      document_processed w' = document_processed w \<and> current_doc_hash w' = current_doc_hash w \<and>
      build_calls w' = build_calls w \<and> upload_dir w' = upload_dir w \<and>
      (fs \<inter> {0, 1, 2} = {} \<longrightarrow>
         (\<exists>new_id. r = Some new_id \<and> chat_id w' = Some new_id \<and>
            new_id \<notin> s_id ` set (chat_sessions (db w)) \<and>
            chat_sessions (db w') = chat_sessions (db w) @
              [\<lparr>s_id = new_id, s_created_at = created, s_document_path = None,
                s_document_unique_name = None, s_document_display_name = None\<rparr>] \<and>
            chat_messages (db w') = chat_messages (db w))))"
  using next_rowid_fresh[of "seq_chat_sessions (db w)" "map s_id (chat_sessions (db w))"]
  by (auto simp add: start_new_chat_session_def insert_session_def Let_def split: prod.splits)

theorem start_new_chat_session_keeps_document_witness:
  "({} :: nat set) \<inter> {0, 1, 2} = {} \<and>
   fst (start_new_chat_session {} ''2024-01-01 10:05:00'' w_report) = Some 2 \<and>
   chat_history w_report \<noteq> [] \<and> process_logs w_report \<noteq> [] \<and>
   chat_history (snd (start_new_chat_session {} ''2024-01-01 10:05:00'' w_report)) = [] \<and>
   process_logs (snd (start_new_chat_session {} ''2024-01-01 10:05:00'' w_report)) = [] \<and>
   vector_db (snd (start_new_chat_session {} ''2024-01-01 10:05:00'' w_report)) =
     Some (VectorDb 1) \<and>
   current_document (snd (start_new_chat_session {} ''2024-01-01 10:05:00'' w_report)) =
     current_document w_report \<and>
   map s_id (chat_sessions (db (snd (start_new_chat_session {} ''2024-01-01 10:05:00''
     w_report)))) = [1, 2]"
proof -
  obtain r w' where s: "start_new_chat_session {} ''2024-01-01 10:05:00'' w_report = (r, w')"
    by force
  have "fst (start_new_chat_session {} ''2024-01-01 10:05:00'' w_report) = Some 2"
    by (simp add: w_report_eq run_defs)
  with s have r: "r = Some 2" by simp
  from start_new_chat_session_keeps_document[where fs = "{}"
      and created = "''2024-01-01 10:05:00''" and w = w_report] s r
  have "chat_history w' = [] \<and> process_logs w' = [] \<and>
      current_document w' = current_document w_report \<and> vector_db w' = vector_db w_report \<and>
      chat_sessions (db w') = chat_sessions (db w_report) @
              [\<lparr>s_id = 2, s_created_at = ''2024-01-01 10:05:00'', s_document_path = None,
                s_document_unique_name = None, s_document_display_name = None\<rparr>]"
    by simp
  with s r show ?thesis
    by (simp add: w_report_eq)
qed

section \<open>Messages and their sessions (C10)\<close>

lemma ids_update_session_doc [simp]:
  "s_id ` set (chat_sessions (update_session_doc doc cid d)) = s_id ` set (chat_sessions d)"
proof -
  have "map s_id (chat_sessions (update_session_doc doc cid d)) = map s_id (chat_sessions d)"
    by (simp add: update_session_doc_def)
  then show ?thesis by (metis set_map)
qed

lemma fk_ok_insert_message:
  "fk_ok d \<Longrightarrow> cid \<in> s_id ` set (chat_sessions d) \<Longrightarrow> fk_ok (insert_message cid e d)"
  by (simp add: fk_ok_def insert_message_def Let_def)

lemma fk_ok_update_session_doc:
  "fk_ok d \<Longrightarrow> fk_ok (update_session_doc doc cid d)"
  using ids_update_session_doc[of doc cid d] by (simp add: fk_ok_def)

lemma fk_ok_insert_session:
  "fk_ok d \<Longrightarrow> fk_ok (snd (insert_session created d))"
  by (auto simp add: fk_ok_def insert_session_def Let_def)

lemma persist_session_keeps_fk:
  assumes "fk_ok (db w)" and "session_known w" and "2 \<notin> fs"
  shows "case persist_session fs created w of
           Raised w1 \<Rightarrow> fk_ok (db w1) \<and> session_known w1
         | Returned w1 \<Rightarrow> fk_ok (db w1) \<and> session_known w1 \<and> chat_id w1 \<noteq> None"
proof (cases "chat_id w")
  case (Some n)
  with assms show ?thesis by (simp add: persist_session_def)
next
  case None
  obtain n d1 where i: "insert_session created (db w) = (n, d1)" by force
  with fk_ok_insert_session[OF assms(1), of created] have "fk_ok d1" by simp
  moreover from i have "n \<in> s_id ` set (chat_sessions d1)"
    by (auto simp add: insert_session_def Let_def)
  ultimately show ?thesis using None assms i
    by (simp add: persist_session_def session_known_def)
qed

lemma persist_message_keeps_fk:
  assumes "fk_ok (db w)" and "session_known w"
  shows "case persist_message fs e w of
           Raised w1 \<Rightarrow> fk_ok (db w1) \<and> session_known w1
         | Returned w1 \<Rightarrow> fk_ok (db w1) \<and> session_known w1"
proof (cases "chat_id w")
  case None
  with assms show ?thesis by (simp add: persist_message_def)
next
  case (Some n)
  with assms have n: "n \<in> s_id ` set (chat_sessions (db w))" by (simp add: session_known_def)
  from fk_ok_insert_message[OF assms(1) n] have 1: "fk_ok (insert_message n e (db w))" .
  from fk_ok_update_session_doc[OF 1]
  have 2: "fk_ok (update_session_doc doc n (insert_message n e (db w)))" for doc .
  from Some assms n 1 2 show ?thesis
    by (simp add: persist_message_def session_known_def Let_def split: option.splits)
qed

text \<open>
  As long as the commit of a newly inserted session row does not raise, an append keeps
  the foreign key and a current chat id that names a stored session.
\<close>

lemma add_to_chat_history_keeps_fk:
  assumes "fk_ok (db w)" and "session_known w" and "2 \<notin> fs"
  shows "fk_ok (db (add_to_chat_history fs ts created q a rt dn w)) \<and>
         session_known (add_to_chat_history fs ts created q a rt dn w)"
proof -
  let ?e = "\<lparr>timestamp = ts, question = q, answer = a, response_time = rt, document = dn\<rparr>"
  let ?w0 = "w\<lparr>chat_history := chat_history w @ [?e]\<rparr>"
  have 0: "fk_ok (db ?w0)" "session_known ?w0"
    using assms by (simp_all add: session_known_def split: option.splits)
  show ?thesis
  proof (cases "persist_session fs created ?w0")
    case (Raised w1)
    with persist_session_keeps_fk[OF 0 assms(3), of created] show ?thesis
      by (simp add: add_to_chat_history_def Let_def)
  next
    case (Returned w1)
    with persist_session_keeps_fk[OF 0 assms(3), of created]
    have 1: "fk_ok (db w1)" "session_known w1" by simp_all
    from persist_message_keeps_fk[OF 1, of fs ?e] Returned show ?thesis
      by (simp add: add_to_chat_history_def Let_def split: outcome.splits)
  qed
qed

text \<open>
  C10: every persisted message row names a stored session row after every operation.
  The code breaks this when the commit of the session row raises in
  \<^verbatim>\<open>add_to_chat_history\<close> (line 93): \<^verbatim>\<open>chat_id\<close> was set to \<^verbatim>\<open>cur.lastrowid\<close> on the
  line before, the row is rolled back, and the next append finds a chat id, skips the
  step that ensures a session, and stores its message under the id of no session.
  From the empty store: after the failed first append the chat id is 1 and the store
  is unchanged; after the second, successful one there is a message of chat 1 and no
  session row at all.
\<close>

theorem add_to_chat_history_dangling_chat_id:
  "chat_id w_empty = None \<and>
   chat_sessions (db w_empty) = [] \<and> chat_messages (db w_empty) = [] \<and>
   chat_id (add_to_chat_history {2} ''2024-01-01 10:00:00'' ''2024-01-01 10:00:01''
              ''first'' ''one'' 1 None w_empty) = Some 1 \<and>
   db (add_to_chat_history {2} ''2024-01-01 10:00:00'' ''2024-01-01 10:00:01''
              ''first'' ''one'' 1 None w_empty) = db w_empty \<and>
   chat_sessions (db (add_to_chat_history {} ''2024-01-01 10:02:00'' ''2024-01-01 10:02:01''
       ''second'' ''two'' 2 None
       (add_to_chat_history {2} ''2024-01-01 10:00:00'' ''2024-01-01 10:00:01''
              ''first'' ''one'' 1 None w_empty))) = [] \<and>
   map m_chat_id (chat_messages (db (add_to_chat_history {} ''2024-01-01 10:02:00''
       ''2024-01-01 10:02:01'' ''second'' ''two'' 2 None
       (add_to_chat_history {2} ''2024-01-01 10:00:00'' ''2024-01-01 10:00:01''
              ''first'' ''one'' 1 None w_empty)))) = [1]"
  by (simp add: run_defs)

end
